theory Spec2Isabelle
  imports Main
begin

section \<open>JavaScript values\<close>

text \<open>
  A thrown value is an \<^verbatim>\<open>Error\<close> object; \<^verbatim>\<open>new URL\<close> throws a \<^verbatim>\<open>TypeError\<close>.
  \<open>message\<close> is \<^verbatim>\<open>error.message\<close>; \<open>error_text\<close> is the text a template literal
  \<^verbatim>\<open>${error}\<close> produces (\<^verbatim>\<open>Error.prototype.toString\<close>).
\<close>

datatype js_error = Error string | TypeError string

fun message :: "js_error \<Rightarrow> string" where
  "message (Error m) = m"
| "message (TypeError m) = m"

fun error_text :: "js_error \<Rightarrow> string" where
  "error_text (Error m) = (if m = [] then ''Error'' else ''Error: '' @ m)"
| "error_text (TypeError m) = (if m = [] then ''TypeError'' else ''TypeError: '' @ m)"

text \<open>
  A value that reaches a \<^verbatim>\<open>catch\<close> block from code that is not among the sources: an
  \<^verbatim>\<open>Error\<close> object, or \<^verbatim>\<open>undefined\<close> or \<^verbatim>\<open>null\<close> (a promise rejected without a reason, a
  \<^verbatim>\<open>throw\<close> of no value). \<open>read_message\<close> is the expression \<^verbatim>\<open>error.message\<close>: the message of
  an \<^verbatim>\<open>Error\<close> object, and a \<^verbatim>\<open>TypeError\<close> thrown for \<^verbatim>\<open>undefined\<close> and \<^verbatim>\<open>null\<close>, which have no
  properties.
\<close>

datatype thrown = Thrown js_error | ThrownUndefined | ThrownNull

fun read_message :: "thrown \<Rightarrow> js_error + string" where
  "read_message (Thrown e) = Inr (message e)"
| "read_message ThrownUndefined =
     Inl (TypeError ''Cannot read properties of undefined (reading 'message')'')"
| "read_message ThrownNull =
     Inl (TypeError ''Cannot read properties of null (reading 'message')'')"

text \<open>The settled state of a promise returned by an \<^verbatim>\<open>async\<close> function.\<close>

datatype 'a outcome = Resolved 'a | Rejected js_error

text \<open>\<^verbatim>\<open>PipelineData = unknown\<close>: data that travels as JSON.\<close>

datatype json =
    JNull
  | JBool bool
  | JNum int
  | JStr string
  | JArr "json list"
  | JObj "(string \<times> json) list"

text \<open>\<^verbatim>\<open>!x\<close> on an optional string: true for \<^verbatim>\<open>undefined\<close> and for the empty string.\<close>

fun falsy :: "string option \<Rightarrow> bool" where
  "falsy None = True"
| "falsy (Some s) = (s = [])"

text \<open>A non-negative integer in a template literal: its decimal digits.\<close>

definition digit :: "nat \<Rightarrow> char" where
  "digit d = ''0123456789'' ! d"

function decimal :: "nat \<Rightarrow> string" where
  "decimal n = (if n < 10 then [digit n] else decimal (n div 10) @ [digit (n mod 10)])"
  by pat_completeness auto
termination
  by (relation "measure (\<lambda>n. n)") auto

declare decimal.simps [simp del]

definition is_digit :: "char \<Rightarrow> bool" where
  "is_digit c = (c \<in> set ''0123456789'')"

definition is_hex :: "char \<Rightarrow> bool" where
  "is_hex c = (c \<in> set ''0123456789abcdef'')"

text \<open>
  The text form of a version-4 UUID, as \<^verbatim>\<open>randomUUID()\<close> of \<^verbatim>\<open>node:crypto\<close> returns it:
  36 characters, lower-case hexadecimal digits in groups of 8, 4, 4, 4 and 12 separated
  by hyphens.
\<close>

definition is_uuid :: "string \<Rightarrow> bool" where
  "is_uuid u =
     (length u = 36 \<and>
      list_all is_hex (take 8 u) \<and> u ! 8 = CHR ''-'' \<and>
      list_all is_hex (take 4 (drop 9 u)) \<and> u ! 13 = CHR ''-'' \<and>
      list_all is_hex (take 4 (drop 14 u)) \<and> u ! 18 = CHR ''-'' \<and>
      list_all is_hex (take 4 (drop 19 u)) \<and> u ! 23 = CHR ''-'' \<and>
      list_all is_hex (drop 24 u))"

text \<open>A JavaScript \<^verbatim>\<open>Map\<close> keeps its entries in insertion order.\<close>

definition Map_get :: "('k \<times> 'v) list \<Rightarrow> 'k \<Rightarrow> 'v option" where
  "Map_get m k = map_of m k"

definition Map_has :: "('k \<times> 'v) list \<Rightarrow> 'k \<Rightarrow> bool" where
  "Map_has m k = (k \<in> set (map fst m))"

fun Map_set :: "('k \<times> 'v) list \<Rightarrow> 'k \<Rightarrow> 'v \<Rightarrow> ('k \<times> 'v) list" where
  "Map_set [] k v = [(k, v)]"
| "Map_set ((k', v') # m) k v =
     (if k' = k then (k, v) # m else (k', v') # Map_set m k v)"

definition Map_delete :: "('k \<times> 'v) list \<Rightarrow> 'k \<Rightarrow> ('k \<times> 'v) list" where
  "Map_delete m k = filter (\<lambda>kv. fst kv \<noteq> k) m"

section \<open>Types of \<^verbatim>\<open>types/types.ts\<close>\<close>

datatype node_status = PENDING | IN_PROGRESS | COMPLETED | FAILED | PAUSED

definition NODE_CREATE :: string where "NODE_CREATE = ''node_create''"
definition NODE_DELETE :: string where "NODE_DELETE = ''node_delete''"
definition NODE_PAUSE :: string where "NODE_PAUSE = ''node_pause''"
definition NODE_DELAY :: string where "NODE_DELAY = ''node_delay''"
definition NODE_RUN :: string where "NODE_RUN = ''node_run''"
definition NODE_SEND_DATA :: string where "NODE_SEND_DATA = ''node_send_data''"

text \<open>
  \<^verbatim>\<open>SupervisorPayload\<close>: the signal is a string at run time (the union type is erased, and
  \<^verbatim>\<open>handleRequest\<close> has a \<^verbatim>\<open>default\<close> branch); the other fields are read with the types of
  the methods they are passed to. \<^verbatim>\<open>params\<close> may be absent (the parameter has a default).
\<close>

record supervisor_payload =
  p_signal :: string
  p_params :: "string list option"
  p_id :: string
  p_delay :: nat
  p_data :: json

text \<open>
  \<^verbatim>\<open>CallbackPayload\<close>, with the fields the remote-service callback reads
  (\<^verbatim>\<open>chainId\<close> and \<^verbatim>\<open>meta\<close> are optional).
\<close>

record callback_payload =
  chainId :: "string option"
  targetId :: string
  meta :: "json option"
  data :: json

text \<open>
  A stage of a chain: \<^verbatim>\<open>{services}\<close>, and \<^verbatim>\<open>{services, location}\<close> in the supervisor's
  \<^verbatim>\<open>ChainConfig\<close>. The supervisor's service entries are strings; the setup callback's are
  strings or \<^verbatim>\<open>{targetId, meta}\<close> objects.
\<close>

datatype location = Local | Remote

datatype service = ServiceId string | ServiceConfig string "json option"

record 's stage =
  services :: "'s list"

record 's chain_config = "'s stage" +
  location :: location

record 's chain_info =
  chain_id :: string
  config :: "'s stage list"

record 's brodcast_message =
  signal :: string
  chain :: "'s chain_info"

text \<open>\<^verbatim>\<open>BroadcastReportingMessage\<close>: a chain id and the rest of the report.\<close>

record reporting_message =
  report_chainId :: string
  report_body :: json

section \<open>Observable effects\<close>

text \<open>
  The program's effects are recorded in order: a call of the \<^verbatim>\<open>Logger\<close>, a call of
  \<^verbatim>\<open>post(url, data)\<close>, a call of the supervisor's \<^verbatim>\<open>broadcastFunction\<close> and a call of its
  \<^verbatim>\<open>callbackOutput\<close>. Where the source serialises a value with \<^verbatim>\<open>JSON.stringify\<close>, the
  record keeps the value that is serialised.
\<close>

datatype log_level = INFO | WARN | ERROR

datatype log_msg =
    Message string
  | BroadcastMessage "service brodcast_message"
  | ServiceCallbackPayload callback_payload string

datatype post_body =
    SetupBody string "service stage"
  | RunBody callback_payload
  | NotifyBody reporting_message

datatype event =
    Log log_level log_msg
  | Post string post_body
  | Broadcast "string brodcast_message"
  | Callback callback_payload

definition is_Post :: "event \<Rightarrow> bool" where
  "is_Post e = (case e of Post u b \<Rightarrow> True | _ \<Rightarrow> False)"

definition is_warning :: "event \<Rightarrow> bool" where
  "is_warning e = (case e of Log l m \<Rightarrow> l = WARN | _ \<Rightarrow> False)"

fun broadcast_calls :: "event list \<Rightarrow> string brodcast_message list" where
  "broadcast_calls [] = []"
| "broadcast_calls (Broadcast m # es) = m # broadcast_calls es"
| "broadcast_calls (e # es) = broadcast_calls es"

text \<open>
  What the program reads from its surroundings: the clock (\<^verbatim>\<open>Date.now()\<close>), the results
  of the successive calls of \<^verbatim>\<open>randomUUID()\<close>, and the identifiers given to the successive
  new nodes; and the record of its effects.
\<close>

record world =
  now :: nat
  uuids :: "nat \<Rightarrow> string"
  uuidCalls :: nat
  nodeIds :: "nat \<Rightarrow> string"
  nodeCount :: nat
  trace :: "event list"

definition emit :: "event list \<Rightarrow> world \<Rightarrow> world" where
  "emit es w = w\<lparr>trace := trace w @ es\<rparr>"

definition log :: "log_level \<Rightarrow> string \<Rightarrow> world \<Rightarrow> world" where
  "log l m w = emit [Log l (Message m)] w"

section \<open>The collaborators of the supervisor\<close>

text \<open>
  Modelled from the spec: the class \<^verbatim>\<open>Node\<close> (\<^verbatim>\<open>./Node\<close>) is not among the sources. A
  node has the attributes of the data model: its identifier, dependencies, status, delay,
  retained output and next target, and the chain id and metadata that \<^verbatim>\<open>sendData\<close> passes
  on. The processors of its pipeline are not modelled: \<^verbatim>\<open>execute\<close> is a parameter of the
  supervisor below.
\<close>

record node =
  node_id :: string
  dependencies :: "string list"
  status :: node_status
  delay :: nat
  node_output :: "json option"
  nextTarget :: "string option"
  node_chainId :: "string option"
  node_meta :: "json option"

text \<open>
  Modelled from the spec: \<^verbatim>\<open>new Node(dependencies)\<close>. A node is created in state
  \<^verbatim>\<open>PENDING\<close> with an identifier assigned at creation, here the next one of the world's
  supply; it has no output and no next target yet.
\<close>

definition Node :: "string list \<Rightarrow> string \<Rightarrow> node" where
  "Node deps i =
     \<lparr>node_id = i, dependencies = deps, status = PENDING, delay = 0,
      node_output = None, nextTarget = None, node_chainId = None, node_meta = None\<rparr>"

definition new_Node :: "string list \<Rightarrow> world \<Rightarrow> node \<times> world" where
  "new_Node deps w = (Node deps (nodeIds w (nodeCount w)), w\<lparr>nodeCount := nodeCount w + 1\<rparr>)"

text \<open>Modelled from the spec: \<^verbatim>\<open>Node.getId\<close> returns the identifier.\<close>

definition getId :: "node \<Rightarrow> string" where
  "getId n = node_id n"

text \<open>
  Modelled from the spec: \<^verbatim>\<open>Node.updateStatus\<close> sets the status; the legal transitions
  are \<^verbatim>\<open>PENDING \<rightarrow> IN_PROGRESS \<rightarrow> COMPLETED | FAILED\<close>, to \<^verbatim>\<open>PAUSED\<close> from any non-terminal
  state, and from \<^verbatim>\<open>PAUSED\<close> back to \<^verbatim>\<open>PENDING\<close>; an illegal transition fails with
  \<^verbatim>\<open>InvalidTransition\<close> and leaves the node as it is.
\<close>

definition legal_transition :: "node_status \<Rightarrow> node_status \<Rightarrow> bool" where
  "legal_transition old new =
     (case new of
        IN_PROGRESS \<Rightarrow> old = PENDING
      | COMPLETED \<Rightarrow> old = IN_PROGRESS
      | FAILED \<Rightarrow> old = IN_PROGRESS
      | PAUSED \<Rightarrow> old = PENDING \<or> old = IN_PROGRESS \<or> old = PAUSED
      | PENDING \<Rightarrow> old = PAUSED)"

definition InvalidTransition :: js_error where
  "InvalidTransition = Error ''InvalidTransition''"

definition updateStatus :: "node \<Rightarrow> node_status \<Rightarrow> node \<times> js_error option" where
  "updateStatus n st =
     (if legal_transition (status n) st then (n\<lparr>status := st\<rparr>, None)
      else (n, Some InvalidTransition))"

text \<open>Modelled from the spec: \<^verbatim>\<open>Node.setDelay\<close> stores the delay.\<close>

definition setDelay :: "node \<Rightarrow> nat \<Rightarrow> node" where
  "setDelay n ms = n\<lparr>delay := ms\<rparr>"

text \<open>
  Modelled from the spec: \<^verbatim>\<open>Node.sendData\<close> requires status \<^verbatim>\<open>COMPLETED\<close> and an output,
  and fails with \<^verbatim>\<open>NoOutput\<close> otherwise; it invokes the supervisor's downstream delivery
  callback with \<^verbatim>\<open>{targetId: nextTarget, data: output, chainId, meta}\<close> and clears the output
  on success; an error of the callback is the error of \<^verbatim>\<open>sendData\<close>, and the node keeps its
  status. The call of the callback is recorded, followed by the effects of the callback.
  The spec does not say what a node without next target hands over: here nothing is sent
  and the node is left as it is.
\<close>

definition NoOutput :: js_error where
  "NoOutput = Error ''NoOutput''"

definition sendData ::
  "(callback_payload \<Rightarrow> event list \<times> js_error option) \<Rightarrow> node \<Rightarrow>
     event list \<times> node \<times> thrown option" where
  "sendData callback n =
     (if status n \<noteq> COMPLETED then ([], n, Some (Thrown NoOutput))
      else case node_output n of
        None \<Rightarrow> ([], n, Some (Thrown NoOutput))
      | Some out \<Rightarrow>
          (case nextTarget n of
             None \<Rightarrow> ([], n, None)
           | Some target \<Rightarrow>
               let payload = \<lparr>chainId = node_chainId n, targetId = target,
                               meta = node_meta n, data = out\<rparr>
               in (case callback payload of
                     (es, None) \<Rightarrow> (Callback payload # es, n\<lparr>node_output := None\<rparr>, None)
                   | (es, Some e) \<Rightarrow> (Callback payload # es, n, Some (Thrown e)))))"

text \<open>
  Modelled from the spec: \<^verbatim>\<open>NodeMonitoring\<close> (\<^verbatim>\<open>./NodeMonitoring\<close>) is not among the
  sources; \<^verbatim>\<open>addNode\<close> and \<^verbatim>\<open>removeNode\<close> maintain the membership of node identifiers.
\<close>

type_synonym node_monitoring = "string list"

definition addNode :: "node_monitoring \<Rightarrow> node \<Rightarrow> node_monitoring" where
  "addNode m n = (if getId n \<in> set m then m else m @ [getId n])"

definition removeNode :: "node_monitoring \<Rightarrow> string \<Rightarrow> node_monitoring" where
  "removeNode m i = removeAll i m"

section \<open>\<^verbatim>\<open>NodeSupervisor\<close>\<close>

text \<open>
  The fields of the singleton. The two injected functions are given by their results: a
  rejection (\<open>Some e\<close>) or a normal return (\<open>None\<close>); their calls are recorded in the
  trace. \<open>callbackOutput\<close> also gives the effects of the call (the Logger calls and POSTs
  of the callback installed).
\<close>

record supervisor =
  uid :: string
  nodes :: "(string \<times> node) list"
  nodeMonitoring :: "node_monitoring option"
  broadcastFunction :: "string brodcast_message \<Rightarrow> js_error option"
  chainConfig :: "string chain_config list"
  callbackOutput :: "callback_payload \<Rightarrow> event list \<times> js_error option"

type_synonym 'a action = "supervisor \<Rightarrow> world \<Rightarrow> 'a outcome \<times> supervisor \<times> world"

definition createNode :: "string list \<Rightarrow> string action" where
  "createNode deps s w =
     (let (node, w1) = new_Node deps w;
          nodeId = getId node;
          s1 = s\<lparr>nodes := Map_set (nodes s) nodeId node\<rparr>;
          s2 = (case nodeMonitoring s1 of
                  Some m \<Rightarrow> s1\<lparr>nodeMonitoring := Some (addNode m node)\<rparr>
                | None \<Rightarrow> s1)
      in (Resolved nodeId, s2, log INFO (''Node '' @ nodeId @ '' created.'') w1))"

definition deleteNode :: "string \<Rightarrow> unit action" where
  "deleteNode nodeId s w =
     (if Map_has (nodes s) nodeId then
        let s1 = s\<lparr>nodes := Map_delete (nodes s) nodeId\<rparr>;
            s2 = (case nodeMonitoring s1 of
                    Some m \<Rightarrow> s1\<lparr>nodeMonitoring := Some (removeNode m nodeId)\<rparr>
                  | None \<Rightarrow> s1)
        in (Resolved (), s2, log INFO (''Node '' @ nodeId @ '' deleted.'') w)
      else (Resolved (), s, log WARN (''Node '' @ nodeId @ '' not found.'') w))"

definition pauseNode :: "string \<Rightarrow> unit action" where
  "pauseNode nodeId s w =
     (case Map_get (nodes s) nodeId of
        Some node \<Rightarrow>
          (case updateStatus node PAUSED of
             (node', None) \<Rightarrow>
               (Resolved (), s\<lparr>nodes := Map_set (nodes s) nodeId node'\<rparr>,
                log INFO (''Node '' @ nodeId @ '' paused.'') w)
           | (node', Some e) \<Rightarrow>
               (Rejected e, s\<lparr>nodes := Map_set (nodes s) nodeId node'\<rparr>, w))
      | None \<Rightarrow> (Resolved (), s, log WARN (''Node '' @ nodeId @ '' not found.'') w))"

definition delayNode :: "string \<Rightarrow> nat \<Rightarrow> unit action" where
  "delayNode nodeId ms s w =
     (case Map_get (nodes s) nodeId of
        Some node \<Rightarrow>
          (Resolved (), s\<lparr>nodes := Map_set (nodes s) nodeId (setDelay node ms)\<rparr>,
           log INFO (''Node '' @ nodeId @ '' delayed by '' @ decimal ms @ '' ms.'') w)
      | None \<Rightarrow> (Resolved (), s, log WARN (''Node '' @ nodeId @ '' not found.'') w))"

text \<open>
  \<^verbatim>\<open>Node.execute\<close> and \<^verbatim>\<open>Node.sendData\<close> are not among the sources. The supervisor takes
  them as the parameters \<open>execute\<close> and \<open>send\<close>: each gives the node after the call and the
  value it threw, if any; \<open>send\<close> is given the supervisor's \<open>callbackOutput\<close> and also
  gives the effects of the call. \<open>sendData\<close> above, the model of the spec, is one such
  \<open>send\<close>. In \<^verbatim>\<open>sendNodeData\<close> the \<^verbatim>\<open>catch\<close> block reads \<^verbatim>\<open>error.message\<close> of the value caught:
  where that read throws, the block logs nothing and \<^verbatim>\<open>sendNodeData\<close> rejects.
\<close>

type_synonym execute = "node \<Rightarrow> json \<Rightarrow> node \<times> js_error option"

type_synonym send_data =
  "(callback_payload \<Rightarrow> event list \<times> js_error option) \<Rightarrow> node \<Rightarrow>
     event list \<times> node \<times> thrown option"

definition runNode :: "execute \<Rightarrow> string \<Rightarrow> json \<Rightarrow> unit action" where
  "runNode execute nodeId d s w =
     (case Map_get (nodes s) nodeId of
        Some node \<Rightarrow>
          (case execute node d of
             (node', None) \<Rightarrow> (Resolved (), s\<lparr>nodes := Map_set (nodes s) nodeId node'\<rparr>, w)
           | (node', Some e) \<Rightarrow> (Rejected e, s\<lparr>nodes := Map_set (nodes s) nodeId node'\<rparr>, w))
      | None \<Rightarrow> (Resolved (), s, log WARN (''Node '' @ nodeId @ '' not found.'') w))"

definition sendNodeData :: "send_data \<Rightarrow> string \<Rightarrow> unit action" where
  "sendNodeData send nodeId s w =
     (case Map_get (nodes s) nodeId of
        Some node \<Rightarrow>
          (case send (callbackOutput s) node of
             (es, node', None) \<Rightarrow>
               (Resolved (), s\<lparr>nodes := Map_set (nodes s) nodeId node'\<rparr>, emit es w)
           | (es, node', Some error) \<Rightarrow>
               (case read_message error of
                  Inr msg \<Rightarrow>
                    (Resolved (), s\<lparr>nodes := Map_set (nodes s) nodeId node'\<rparr>,
                     log ERROR (''Node '' @ nodeId @ '' execution failed: '' @ msg) (emit es w))
                | Inl e \<Rightarrow>
                    (Rejected e, s\<lparr>nodes := Map_set (nodes s) nodeId node'\<rparr>, emit es w)))
      | None \<Rightarrow> (Resolved (), s, log WARN (''Node '' @ nodeId @ '' not found.'') w))"

text \<open>The value a request resolves with: the new node's id, or nothing.\<close>

definition returning :: "('a \<Rightarrow> 'b) \<Rightarrow> 'a outcome \<times> supervisor \<times> world \<Rightarrow> 'b outcome \<times> supervisor \<times> world" where
  "returning f r =
     (case r of
        (Resolved x, s, w) \<Rightarrow> (Resolved (f x), s, w)
      | (Rejected e, s, w) \<Rightarrow> (Rejected e, s, w))"

definition handleRequest ::
  "execute \<Rightarrow> send_data \<Rightarrow> supervisor_payload \<Rightarrow> string option action" where
  "handleRequest execute send payload s w =
     (if p_signal payload = NODE_CREATE then
        returning Some
          (createNode (case p_params payload of None \<Rightarrow> [] | Some deps \<Rightarrow> deps) s w)
      else if p_signal payload = NODE_DELETE then
        returning (\<lambda>_. None) (deleteNode (p_id payload) s w)
      else if p_signal payload = NODE_PAUSE then
        returning (\<lambda>_. None) (pauseNode (p_id payload) s w)
      else if p_signal payload = NODE_DELAY then
        returning (\<lambda>_. None) (delayNode (p_id payload) (p_delay payload) s w)
      else if p_signal payload = NODE_RUN then
        returning (\<lambda>_. None) (runNode execute (p_id payload) (p_data payload) s w)
      else if p_signal payload = NODE_SEND_DATA then
        returning (\<lambda>_. None) (sendNodeData send (p_id payload) s w)
      else (Resolved None, s, log WARN (''Unknown signal received: '' @ p_signal payload) w))"

text \<open>
  \<^verbatim>\<open>broadcastNodeCreationSignal\<close>: the chain id is built from the uid, the clock and the
  first eight characters of a UUID; the message copies the \<^verbatim>\<open>services\<close> of every stage of
  the chain config; a failure of the broadcast function is caught and logged.
\<close>

definition broadcastNodeCreationSignal :: "unit action" where
  "broadcastNodeCreationSignal s w =
     (let timestamp = now w;
          uuid = uuids w (uuidCalls w);
          w1 = w\<lparr>uuidCalls := uuidCalls w + 1\<rparr>;
          chainId = uid s @ ''-'' @ decimal timestamp @ ''-'' @ take 8 uuid;
          message = \<lparr>signal = NODE_CREATE,
                      chain = \<lparr>chain_id = chainId,
                                config = map (\<lambda>cfg. \<lparr>services = services cfg\<rparr>)
                                           (chainConfig s)\<rparr>\<rparr>;
          w2 = emit [Broadcast message] w1
      in case broadcastFunction s message of
           None \<Rightarrow>
             (Resolved (), s,
              log INFO (''Node creation signal broadcasted with chainId: '' @ chainId) w2)
         | Some error \<Rightarrow>
             (Resolved (), s,
              log ERROR (''Failed to broadcast node creation signal: '' @ error_text error) w2))"

text \<open>The loop of \<^verbatim>\<open>startChain\<close>: one awaited \<^verbatim>\<open>createNode()\<close> for each local config.\<close>

fun createLocalNodes :: "string chain_config list \<Rightarrow> unit action" where
  "createLocalNodes [] s w = (Resolved (), s, w)"
| "createLocalNodes (cfg # rest) s w =
     (case createNode [] s w of
        (Resolved nodeId, s', w') \<Rightarrow> createLocalNodes rest s' w'
      | (Rejected e, s', w') \<Rightarrow> (Rejected e, s', w'))"

definition startChain :: "unit action" where
  "startChain s w =
     (let localConfigs = filter (\<lambda>cfg. location cfg = Local) (chainConfig s);
          remoteConfigs = filter (\<lambda>cfg. location cfg = Remote) (chainConfig s)
      in case createLocalNodes localConfigs s w of
           (Rejected e, s', w') \<Rightarrow> (Rejected e, s', w')
         | (Resolved _, s', w') \<Rightarrow>
             if length remoteConfigs > 0 then broadcastNodeCreationSignal s' w'
             else (Resolved (), s', w'))"

section \<open>The default callbacks\<close>

text \<open>
  Modelled from the spec: \<^verbatim>\<open>post\<close> of \<^verbatim>\<open>./http\<close> is not among the sources; it is the HTTP
  primitive \<^verbatim>\<open>post(url, body)\<close>, an asynchronous call. \<open>post url body\<close> is how its promise
  settles (a rejection, or a normal return); the call itself is recorded as a \<open>Post\<close>
  event. \<open>newURL input base\<close> is the platform's \<^verbatim>\<open>new URL(input, base)\<close>: the \<^verbatim>\<open>href\<close> of the
  URL, or the \<^verbatim>\<open>TypeError\<close> the constructor throws. Both are parameters of the callbacks.
  A host resolver is a function supplied by the caller: it returns a string or
  \<^verbatim>\<open>undefined\<close> (\<open>Inr\<close>), or throws an error (\<open>Inl\<close>).
\<close>

record platform =
  newURL :: "string \<Rightarrow> string option \<Rightarrow> js_error + string"
  post :: "string \<Rightarrow> post_body \<Rightarrow> js_error option"

type_synonym host_resolver = "string \<Rightarrow> json option \<Rightarrow> js_error + string option"

type_synonym monitoring_resolver = "string \<Rightarrow> event list \<times> string option outcome"

text \<open>
  Modelled from the spec: the \<^verbatim>\<open>MonitoringAgent\<close> (\<^verbatim>\<open>agents/MonitoringAgent\<close>) is not among
  the sources; it maps a chain id to the URL of the chain's remote monitoring host.
\<close>

type_synonym monitoring_agent = "(string \<times> string) list"

definition getRemoteMonitoringHost :: "monitoring_agent \<Rightarrow> string \<Rightarrow> string option" where
  "getRemoteMonitoringHost agent cid = map_of agent cid"

text \<open>
  \<^verbatim>\<open>defaultMonitoringResolver\<close>: the \<^verbatim>\<open>try\<close> block returns the host or throws; the \<^verbatim>\<open>catch\<close>
  block logs the message and the function returns \<^verbatim>\<open>undefined\<close>.
\<close>

definition defaultMonitoringResolver :: "monitoring_agent \<Rightarrow> monitoring_resolver" where
  "defaultMonitoringResolver agent cid =
     (let attempt =
            (case getRemoteMonitoringHost agent cid of
               Some monitoringHost \<Rightarrow>
                 ([Log INFO (Message (''Resolving host for monitoring: '' @ monitoringHost))],
                  Inr monitoringHost)
             | None \<Rightarrow> ([], Inl (Error ''monitoring not found'')))
      in case attempt of
           (es, Inr monitoringHost) \<Rightarrow> (es, Resolved (Some monitoringHost))
         | (es, Inl error) \<Rightarrow> (es @ [Log ERROR (Message (message error))], Resolved None))"

record brc_payload =
  brc_message :: reporting_message
  brc_path :: string
  brc_monitoringResolver :: monitoring_resolver

definition broadcastReportingCallback :: "platform \<Rightarrow> brc_payload \<Rightarrow> event list \<times> unit outcome" where
  "broadcastReportingCallback P payload =
     (case brc_monitoringResolver payload (report_chainId (brc_message payload)) of
        (es, Rejected e) \<Rightarrow> (es, Rejected e)
      | (es, Resolved monitoringHost) \<Rightarrow>
          (case newURL P (brc_path payload) monitoringHost of
             Inl e \<Rightarrow> (es, Rejected e)
           | Inr url \<Rightarrow>
               (es @ [Post url (NotifyBody (brc_message payload))],
                case post P url (NotifyBody (brc_message payload)) of
                  None \<Rightarrow> Resolved ()
                | Some e \<Rightarrow> Rejected e)))"

record bsc_payload =
  bsc_message :: "service brodcast_message"
  bsc_hostResolver :: host_resolver
  bsc_path :: string

text \<open>
  The body of the loop of \<^verbatim>\<open>broadcastSetupCallback\<close>, for one stage: its effects, and the
  error thrown out of the body, if any. The host resolver is called before the \<^verbatim>\<open>try\<close>
  block, so an error it throws leaves the body; an error of the URL constructor is
  caught and logged. \<^verbatim>\<open>!host\<close> holds for \<^verbatim>\<open>undefined\<close> and for the empty string. The result
  of \<^verbatim>\<open>void post(url, data)\<close> is dropped.
\<close>

fun service_targetId :: "service \<Rightarrow> string" where
  "service_targetId (ServiceId name) = name"
| "service_targetId (ServiceConfig target mt) = target"

fun service_meta :: "service \<Rightarrow> json option" where
  "service_meta (ServiceId name) = None"
| "service_meta (ServiceConfig target mt) = mt"

definition setupStage ::
  "platform \<Rightarrow> string \<Rightarrow> host_resolver \<Rightarrow> string \<Rightarrow> service stage \<Rightarrow>
     event list \<times> js_error option" where
  "setupStage P cid hostResolver path cfg =
     (case services cfg of
        [] \<Rightarrow> ([Log WARN (Message ''Empty services array encountered in config'')], None)
      | service # others \<Rightarrow>
          let target = service_targetId service;
              mt = service_meta service
          in (case hostResolver target mt of
                Inl raised \<Rightarrow> ([], Some raised)
              | Inr None \<Rightarrow>
                  ([Log WARN (Message (''No container address found for targetId: '' @ target))],
                   None)
              | Inr (Some h) \<Rightarrow>
                  if h = [] then
                    ([Log WARN (Message (''No container address found for targetId: '' @ target))],
                     None)
                  else
                    (case newURL P path (Some h) of
                       Inr url \<Rightarrow> ([Post url (SetupBody cid cfg)], None)
                     | Inl error \<Rightarrow>
                         ([Log ERROR (Message
                             (''Unexpected error sending setup request to '' @ h @
                              '' for targetId '' @ target @ '': '' @ message error))],
                          None))))"

text \<open>
  The \<^verbatim>\<open>for\<close> loop: the stages in order; a value thrown out of the body of the loop ends
  the loop.
\<close>

fun setupStages ::
  "platform \<Rightarrow> string \<Rightarrow> host_resolver \<Rightarrow> string \<Rightarrow> service stage list \<Rightarrow>
     event list \<times> js_error option" where
  "setupStages P cid hostResolver path [] = ([], None)"
| "setupStages P cid hostResolver path (cfg # rest) =
     (case setupStage P cid hostResolver path cfg of
        (es, Some raised) \<Rightarrow> (es, Some raised)
      | (es, None) \<Rightarrow>
          (case setupStages P cid hostResolver path rest of
             (es', r) \<Rightarrow> (es @ es', r)))"

definition broadcastSetupCallback :: "platform \<Rightarrow> bsc_payload \<Rightarrow> event list \<times> unit outcome" where
  "broadcastSetupCallback P payload =
     (let message = bsc_message payload;
          chainConfigs = config (chain message);
          cid = chain_id (chain message)
      in case setupStages P cid (bsc_hostResolver payload) (bsc_path payload) chainConfigs of
           (es, None) \<Rightarrow> (Log INFO (BroadcastMessage message) # es, Resolved ())
         | (es, Some raised) \<Rightarrow> (Log INFO (BroadcastMessage message) # es, Rejected raised))"

record rsc_payload =
  rsc_cbPayload :: callback_payload
  rsc_hostResolver :: host_resolver
  rsc_path :: string

definition MissingChainId :: js_error where
  "MissingChainId = Error ''payload.chainId is undefined''"

definition NoNextConnector :: "string \<Rightarrow> js_error" where
  "NoNextConnector target =
     Error (''Next connector URI not found for the following target service: '' @ target)"

text \<open>
  \<^verbatim>\<open>remoteServiceCallback\<close>: \<open>attempt\<close> is the \<^verbatim>\<open>try\<close> block, ending normally or with the
  error thrown; the \<^verbatim>\<open>catch\<close> block logs the error and throws it again.
\<close>

definition remoteServiceCallback :: "platform \<Rightarrow> rsc_payload \<Rightarrow> event list \<times> unit outcome" where
  "remoteServiceCallback P payload =
     (let cbPayload = rsc_cbPayload payload;
          attempt =
            (if falsy (chainId cbPayload) then ([], Some MissingChainId)
             else
               case rsc_hostResolver payload (targetId cbPayload) (meta cbPayload) of
                 Inl raised \<Rightarrow> ([], Some raised)
               | Inr nextConnectorUrl \<Rightarrow>
                   if falsy nextConnectorUrl then
                     ([], Some (NoNextConnector (targetId cbPayload)))
                   else
                     (case newURL P (rsc_path payload) nextConnectorUrl of
                        Inl e \<Rightarrow> ([], Some e)
                      | Inr url \<Rightarrow>
                          ([Log INFO (Message (''Sending data to next connector on: '' @ url)),
                            Post url (RunBody cbPayload)],
                           post P url (RunBody cbPayload))))
      in case attempt of
           (es, None) \<Rightarrow>
             (Log INFO (ServiceCallbackPayload cbPayload (rsc_path payload)) # es, Resolved ())
         | (es, Some error) \<Rightarrow>
             (Log INFO (ServiceCallbackPayload cbPayload (rsc_path payload)) # es @
                [Log ERROR (Message (''Error sending data to next connector: '' @ message error))],
              Rejected error))"

text \<open>
  The callback that \<^verbatim>\<open>setResolverCallbacks\<close> installs for the downstream hand-off: it
  wraps the payload with the host resolver and the run path and awaits
  \<^verbatim>\<open>remoteServiceCallback\<close>. Taken as the supervisor's \<open>callbackOutput\<close> it has the effects
  of \<^verbatim>\<open>remoteServiceCallback\<close> and settles as it does.
\<close>

definition rejection :: "'a outcome \<Rightarrow> js_error option" where
  "rejection r = (case r of Resolved x \<Rightarrow> None | Rejected e \<Rightarrow> Some e)"

definition remoteServiceOutput ::
  "platform \<Rightarrow> host_resolver \<Rightarrow> string \<Rightarrow> callback_payload \<Rightarrow> event list \<times> js_error option" where
  "remoteServiceOutput P hostResolver path cbPayload =
     (case remoteServiceCallback P
             \<lparr>rsc_cbPayload = cbPayload, rsc_hostResolver = hostResolver, rsc_path = path\<rparr> of
        (es, r) \<Rightarrow> (es, rejection r))"

text \<open>
  A stand-in for the URL constructor, to run the callbacks on concrete inputs. It takes
  an origin \<^verbatim>\<open>http://host\<close> or \<^verbatim>\<open>https://host\<close> as absolute, joins an origin and a path by
  concatenation, and throws where there is no absolute URL to start from, as the
  constructor does for a path without a base.
\<close>

definition absolute :: "string \<Rightarrow> bool" where
  "absolute u = (take 7 u = ''http://'' \<or> take 8 u = ''https://'')"

definition originURL :: "string \<Rightarrow> string option \<Rightarrow> js_error + string" where
  "originURL input base =
     (if absolute input then Inr input
      else case base of
        None \<Rightarrow> Inl (TypeError ''Invalid URL'')
      | Some b \<Rightarrow> if absolute b then Inr (b @ input) else Inl (TypeError ''Invalid URL''))"

section \<open>Sample states\<close>

text \<open>
  A world, a supervisor with initiator uid \<^verbatim>\<open>ci\<close> and a chain of two local stages around
  a remote one, and an \<^verbatim>\<open>execute\<close> that leaves the node as it is: the concrete inputs of
  the instances below.
\<close>

definition sampleWorld :: world where
  "sampleWorld =
     \<lparr>now = 1700000000000,
      uuids = (\<lambda>k. ''3f2a9c1e-7b4d-4e8a-9c6f-0123456789ab''),
      uuidCalls = 0,
      nodeIds = (\<lambda>k. ''node-'' @ decimal k),
      nodeCount = 0,
      trace = []\<rparr>"

definition ciSupervisor :: supervisor where
  "ciSupervisor =
     \<lparr>uid = ''ci'', nodes = [], nodeMonitoring = None,
      broadcastFunction = (\<lambda>m. None),
      chainConfig = [\<lparr>services = [''A''], location = Local\<rparr>,
                     \<lparr>services = [''B''], location = Remote\<rparr>,
                     \<lparr>services = [''C''], location = Local\<rparr>],
      callbackOutput = (\<lambda>p. ([], None))\<rparr>"

definition noExecute :: execute where
  "noExecute n d = (n, None)"

text \<open>
  A platform whose POSTs succeed; a resolver that places service \<^verbatim>\<open>B\<close> on
  \<^verbatim>\<open>http://peer2\<close> and \<^verbatim>\<open>C\<close> on \<^verbatim>\<open>http://peer3\<close>, answers \<^verbatim>\<open>peer4\<close> (no URL to join
  a path to) for \<^verbatim>\<open>D\<close> and the empty string for \<^verbatim>\<open>E\<close>, throws for \<^verbatim>\<open>X\<close> and knows no other
  service; a \<^verbatim>\<open>sendData\<close> that rejects with \<^verbatim>\<open>undefined\<close>; setup
  messages, hand-off payloads and a report; a supervisor whose
  broadcast function raises; a supervisor with one paused node; a completed node with output 42 bound for service \<^verbatim>\<open>Z\<close>, and a
  supervisor that owns it and hands data over with the remote-service callback.
\<close>

definition originPlatform :: platform where
  "originPlatform = \<lparr>newURL = originURL, post = (\<lambda>url body. None)\<rparr>"

definition peerResolver :: host_resolver where
  "peerResolver target mt =
     (if target = ''B'' then Inr (Some ''http://peer2'')
      else if target = ''C'' then Inr (Some ''http://peer3'')
      else if target = ''D'' then Inr (Some ''peer4'')
      else if target = ''E'' then Inr (Some [])
      else if target = ''X'' then Inl (Error ''registry unavailable'')
      else Inr None)"


definition setupMessage :: "service brodcast_message" where
  "setupMessage =
     \<lparr>signal = NODE_CREATE,
      chain = \<lparr>chain_id = ''ci-1700000000000-3f2a9c1e'',
                config = [\<lparr>services = []\<rparr>,
                          \<lparr>services = [ServiceId ''B'']\<rparr>,
                          \<lparr>services = [ServiceId ''Z'']\<rparr>,
                          \<lparr>services = [ServiceId ''D'']\<rparr>,
                          \<lparr>services = [ServiceId ''E'']\<rparr>,
                          \<lparr>services = [ServiceConfig ''C'' (Some (JStr ''eu'')), ServiceId ''B'']\<rparr>]\<rparr>\<rparr>"

definition abortedMessage :: "service brodcast_message" where
  "abortedMessage =
     \<lparr>signal = NODE_CREATE,
      chain = \<lparr>chain_id = ''ci-1700000000000-3f2a9c1e'',
                config = [\<lparr>services = [ServiceId ''X'']\<rparr>,
                          \<lparr>services = [ServiceId ''B'']\<rparr>]\<rparr>\<rparr>"

definition fanoutMessage :: "service brodcast_message" where
  "fanoutMessage =
     \<lparr>signal = NODE_CREATE,
      chain = \<lparr>chain_id = ''ci-1700000000000-3f2a9c1e'',
                config = [\<lparr>services = [ServiceId ''B'', ServiceId ''C'']\<rparr>]\<rparr>\<rparr>"

definition emptyChainIdPayload :: callback_payload where
  "emptyChainIdPayload = \<lparr>chainId = Some [], targetId = ''B'', meta = None, data = JNum 42\<rparr>"

definition handoffPayload :: "string \<Rightarrow> callback_payload" where
  "handoffPayload target =
     \<lparr>chainId = Some ''ci-1700000000000-3f2a9c1e'', targetId = target, meta = None,
      data = JNum 42\<rparr>"

definition sampleReport :: reporting_message where
  "sampleReport = \<lparr>report_chainId = ''ci-1700000000000-3f2a9c1e'', report_body = JNull\<rparr>"

definition failingSupervisor :: supervisor where
  "failingSupervisor = ciSupervisor\<lparr>broadcastFunction := (\<lambda>m. Some (Error ''boom''))\<rparr>"

definition completedNode :: node where
  "completedNode =
     (Node [] ''node-0'')\<lparr>status := COMPLETED, node_output := Some (JNum 42),
        nextTarget := Some ''Z'', node_chainId := Some ''ci-1700000000000-3f2a9c1e''\<rparr>"


definition pausedSupervisor :: supervisor where
  "pausedSupervisor =
     ciSupervisor\<lparr>nodes := [(''node-0'', (Node [] ''node-0'')\<lparr>status := PAUSED\<rparr>)],
       nodeMonitoring := Some [''node-0'']\<rparr>"

section \<open>Properties of the supervisor\<close>

lemma Map_set_same: "Map_get m k = Some v \<Longrightarrow> Map_set m k v = m"
  by (induction m) (auto simp: Map_get_def split: if_splits)

lemma Map_set_fresh: "k \<notin> fst ` set m \<Longrightarrow> Map_set m k v = m @ [(k, v)]"
  by (induction m) auto

lemma Map_has_get: "Map_has m k = (Map_get m k \<noteq> None)"
  by (simp add: Map_has_def Map_get_def map_of_eq_None_iff)

lemma broadcast_calls_append:
  "broadcast_calls (xs @ ys) = broadcast_calls xs @ broadcast_calls ys"
  by (induction xs rule: broadcast_calls.induct) auto

lemmas signal_defs =
  NODE_CREATE_def NODE_DELETE_def NODE_PAUSE_def NODE_DELAY_def NODE_RUN_def NODE_SEND_DATA_def

text \<open>
  C8. A payload whose signal is none of the six \<^verbatim>\<open>NODE_*\<close> signals: \<^verbatim>\<open>handleRequest\<close>
  resolves, the supervisor (its nodes, its monitoring and every other field) is
  unchanged, and the only effect is one warning that names the signal; no report, POST,
  broadcast or callback call is made.
\<close>

theorem handleRequest_unknown_signal:
  assumes "p_signal payload \<notin>
             {NODE_CREATE, NODE_DELETE, NODE_PAUSE, NODE_DELAY, NODE_RUN, NODE_SEND_DATA}"
  shows "handleRequest execute send payload s w =
           (Resolved None, s,
            w\<lparr>trace := trace w @
                 [Log WARN (Message (''Unknown signal received: '' @ p_signal payload))]\<rparr>)"
  using assms by (simp add: handleRequest_def log_def emit_def)

theorem handleRequest_unknown_signal_witness:
  "''bogus'' \<notin> {NODE_CREATE, NODE_DELETE, NODE_PAUSE, NODE_DELAY, NODE_RUN, NODE_SEND_DATA} \<and>
   handleRequest noExecute sendData
     \<lparr>p_signal = ''bogus'', p_params = None, p_id = ''node-0'', p_delay = 0, p_data = JNull\<rparr>
     ciSupervisor sampleWorld =
   (Resolved None, ciSupervisor,
    sampleWorld\<lparr>trace := [Log WARN (Message ''Unknown signal received: bogus'')]\<rparr>)"
  using handleRequest_unknown_signal
    [of "\<lparr>p_signal = ''bogus'', p_params = None, p_id = ''node-0'', p_delay = 0,
          p_data = JNull\<rparr>" noExecute sendData ciSupervisor sampleWorld]
  by (simp add: signal_defs sampleWorld_def)

lemma decimal_digits: "decimal n \<noteq> [] \<and> list_all is_digit (decimal n)"
proof (induction n rule: decimal.induct)
  case (1 n)
  have d: "is_digit (digit k)" if "k < 10" for k
  proof -
    from that have "k \<in> {0,1,2,3,4,5,6,7,8,9}" by auto
    then show ?thesis by (auto simp: is_digit_def digit_def)
  qed
  show ?case
  proof (cases "n < 10")
    case True
    then show ?thesis by (subst decimal.simps, subst (2) decimal.simps) (simp add: d)
  next
    case False
    with 1 have "decimal (n div 10) \<noteq> [] \<and> list_all is_digit (decimal (n div 10))" by simp
    moreover have "is_digit (digit (n mod 10))" by (rule d) simp
    ultimately show ?thesis using False
      by (subst decimal.simps, subst (2) decimal.simps) simp
  qed
qed

lemma node_id_Node: "node_id (Node deps i) = i"
  by (simp add: Node_def)

lemma upt_Suc_front: "[n..<n + Suc k] = n # [Suc n..<Suc n + k]"
  by (subst upt_conv_Cons) simp_all

lemma createNode_result:
  "createNode deps s w =
     (Resolved (nodeIds w (nodeCount w)),
      s\<lparr>nodes := Map_set (nodes s) (nodeIds w (nodeCount w)) (Node deps (nodeIds w (nodeCount w))),
        nodeMonitoring := map_option (\<lambda>m. addNode m (Node deps (nodeIds w (nodeCount w)))) (nodeMonitoring s)\<rparr>,
      w\<lparr>nodeCount := nodeCount w + 1,
        trace := trace w @ [Log INFO (Message (''Node '' @ nodeIds w (nodeCount w) @ '' created.''))]\<rparr>)"
  by (cases "nodeMonitoring s")
     (simp_all add: createNode_def new_Node_def getId_def Let_def log_def emit_def node_id_Node)

lemma createLocalNodes_result:
  assumes "distinct (map (nodeIds w) [nodeCount w..<nodeCount w + length cs])"
    and "set (map (nodeIds w) [nodeCount w..<nodeCount w + length cs]) \<inter> fst ` set (nodes s) = {}"
  shows "\<exists>s' w'. createLocalNodes cs s w = (Resolved (), s', w') \<and>
           nodes s' = nodes s @ map (\<lambda>i. (i, Node [] i))
                                 (map (nodeIds w) [nodeCount w..<nodeCount w + length cs]) \<and>
           uid s' = uid s \<and> chainConfig s' = chainConfig s \<and>
           broadcastFunction s' = broadcastFunction s \<and> callbackOutput s' = callbackOutput s \<and>
           now w' = now w \<and> uuids w' = uuids w \<and> uuidCalls w' = uuidCalls w \<and>
           broadcast_calls (trace w') = broadcast_calls (trace w)"
  using assms
proof (induction cs arbitrary: s w)
  case Nil
  then show ?case by simp
next
  case (Cons c cs)
  let ?i = "nodeIds w (nodeCount w)"
  let ?s1 = "s\<lparr>nodes := Map_set (nodes s) ?i (Node [] ?i),
        nodeMonitoring := map_option (\<lambda>m. addNode m (Node [] ?i)) (nodeMonitoring s)\<rparr>"
  let ?w1 = "w\<lparr>nodeCount := nodeCount w + 1,
        trace := trace w @ [Log INFO (Message (''Node '' @ ?i @ '' created.''))]\<rparr>"
  have upt: "[nodeCount w..<nodeCount w + length (c # cs)] =
               nodeCount w # [nodeCount ?w1..<nodeCount ?w1 + length cs]"
    using upt_Suc_front [of "nodeCount w" "length cs"] by simp
  note p1 = Cons.prems(1) [unfolded upt]
  note p2 = Cons.prems(2) [unfolded upt]
  from p2 have fresh: "?i \<notin> fst ` set (nodes s)" by auto
  then have n1: "nodes ?s1 = nodes s @ [(?i, Node [] ?i)]" by (simp add: Map_set_fresh)
  have d1: "distinct (map (nodeIds ?w1) [nodeCount ?w1..<nodeCount ?w1 + length cs])"
    using p1 by simp
  have f1: "set (map (nodeIds ?w1) [nodeCount ?w1..<nodeCount ?w1 + length cs]) \<inter> fst ` set (nodes ?s1) = {}"
    using p1 p2 by (auto simp: n1)
  from Cons.IH [OF d1 f1] obtain s' w' where
    r: "createLocalNodes cs ?s1 ?w1 = (Resolved (), s', w')"
    and n: "nodes s' = nodes ?s1 @ map (\<lambda>i. (i, Node [] i))
                                 (map (nodeIds ?w1) [nodeCount ?w1..<nodeCount ?w1 + length cs])"
    and rest: "uid s' = uid ?s1" "chainConfig s' = chainConfig ?s1"
           "broadcastFunction s' = broadcastFunction ?s1" "callbackOutput s' = callbackOutput ?s1"
           "now w' = now ?w1" "uuids w' = uuids ?w1" "uuidCalls w' = uuidCalls ?w1"
           "broadcast_calls (trace w') = broadcast_calls (trace ?w1)"
    by blast
  have "createLocalNodes (c # cs) s w = (Resolved (), s', w')"
    using r by (simp add: createNode_result)
  moreover have "nodes s' = nodes s @ map (\<lambda>i. (i, Node [] i))
                                 (map (nodeIds w) [nodeCount w..<nodeCount w + length (c # cs)])"
    unfolding upt using n n1 by simp
  ultimately show ?case using rest by (simp add: broadcast_calls_append)
qed

lemma broadcastNodeCreationSignal_result:
  "broadcastNodeCreationSignal s w =
     (Resolved (), s,
      w\<lparr>uuidCalls := uuidCalls w + 1,
        trace := trace w @
          [Broadcast \<lparr>signal = NODE_CREATE,
                      chain = \<lparr>chain_id = uid s @ ''-'' @ decimal (now w) @ ''-'' @
                                            take 8 (uuids w (uuidCalls w)),
                                config = map (\<lambda>cfg. \<lparr>services = services cfg\<rparr>) (chainConfig s)\<rparr>\<rparr>,
           case broadcastFunction s
                  \<lparr>signal = NODE_CREATE,
                   chain = \<lparr>chain_id = uid s @ ''-'' @ decimal (now w) @ ''-'' @
                                         take 8 (uuids w (uuidCalls w)),
                             config = map (\<lambda>cfg. \<lparr>services = services cfg\<rparr>) (chainConfig s)\<rparr>\<rparr> of
             None \<Rightarrow> Log INFO (Message (''Node creation signal broadcasted with chainId: '' @
                        uid s @ ''-'' @ decimal (now w) @ ''-'' @ take 8 (uuids w (uuidCalls w))))
           | Some error \<Rightarrow> Log ERROR (Message (''Failed to broadcast node creation signal: '' @
                        error_text error))]\<rparr>)"
  by (simp add: broadcastNodeCreationSignal_def Let_def log_def emit_def split: option.split)


lemma startChain_result:
  assumes "ids = map (nodeIds w) [nodeCount w..<nodeCount w +
                   length (filter (\<lambda>cfg. location cfg = Local) (chainConfig s))]"
    and "distinct ids"
    and "set ids \<inter> fst ` set (nodes s) = {}"
  shows "\<exists>s1 w1. createLocalNodes (filter (\<lambda>cfg. location cfg = Local) (chainConfig s)) s w =
                    (Resolved (), s1, w1) \<and>
           startChain s w =
             (if \<exists>cfg\<in>set (chainConfig s). location cfg = Remote
              then broadcastNodeCreationSignal s1 w1 else (Resolved (), s1, w1)) \<and>
           nodes s1 = nodes s @ map (\<lambda>i. (i, Node [] i)) ids \<and>
           uid s1 = uid s \<and> chainConfig s1 = chainConfig s \<and>
           broadcastFunction s1 = broadcastFunction s \<and>
           now w1 = now w \<and> uuids w1 = uuids w \<and> uuidCalls w1 = uuidCalls w \<and>
           broadcast_calls (trace w1) = broadcast_calls (trace w)"
proof -
  let ?loc = "filter (\<lambda>cfg. location cfg = Local) (chainConfig s)"
  from assms createLocalNodes_result [of w ?loc s] obtain s1 w1 where
    r: "createLocalNodes ?loc s w = (Resolved (), s1, w1)"
    and n: "nodes s1 = nodes s @ map (\<lambda>i. (i, Node [] i)) ids"
    and rest: "uid s1 = uid s" "chainConfig s1 = chainConfig s"
           "broadcastFunction s1 = broadcastFunction s"
           "now w1 = now w" "uuids w1 = uuids w" "uuidCalls w1 = uuidCalls w"
           "broadcast_calls (trace w1) = broadcast_calls (trace w)"
    by auto
  have rem: "(0 < length (filter (\<lambda>cfg. location cfg = Remote) (chainConfig s))) =
               (\<exists>cfg\<in>set (chainConfig s). location cfg = Remote)"
    by (simp add: filter_empty_conv)
  have "startChain s w =
          (if \<exists>cfg\<in>set (chainConfig s). location cfg = Remote
           then broadcastNodeCreationSignal s1 w1 else (Resolved (), s1, w1))"
    using r rem by (simp add: startChain_def Let_def)
  with r n rest show ?thesis by simp
qed

text \<open>
  C1. \<^verbatim>\<open>startChain\<close> creates one new node for each config whose location is \<^verbatim>\<open>local\<close>, in
  order, and registers it in the supervisor's map of nodes under its identifier; it
  calls the broadcast function once if some config has location \<^verbatim>\<open>remote\<close>, and not at
  all otherwise. The identifiers the new nodes receive are fresh: distinct and not yet
  keys of the map.
\<close>

theorem startChain_local_nodes_and_broadcast:
  assumes "ids = map (nodeIds w) [nodeCount w..<nodeCount w +
                   length (filter (\<lambda>cfg. location cfg = Local) (chainConfig s))]"
    and "distinct ids"
    and "set ids \<inter> fst ` set (nodes s) = {}"
  shows "\<exists>s' w'. startChain s w = (Resolved (), s', w') \<and>
           nodes s' = nodes s @ map (\<lambda>i. (i, Node [] i)) ids \<and>
           length (broadcast_calls (trace w')) =
             length (broadcast_calls (trace w)) +
             (if \<exists>cfg\<in>set (chainConfig s). location cfg = Remote then 1 else 0)"
proof -
  from startChain_result [OF assms] obtain s1 w1 where
    st: "startChain s w =
             (if \<exists>cfg\<in>set (chainConfig s). location cfg = Remote
              then broadcastNodeCreationSignal s1 w1 else (Resolved (), s1, w1))"
    and n: "nodes s1 = nodes s @ map (\<lambda>i. (i, Node [] i)) ids"
    and b: "broadcast_calls (trace w1) = broadcast_calls (trace w)"
    by blast
  show ?thesis
  proof (cases "\<exists>cfg\<in>set (chainConfig s). location cfg = Remote")
    case True
    with st n b show ?thesis
      by (simp add: broadcastNodeCreationSignal_result broadcast_calls_append split: option.split)
  next
    case False
    with st n b show ?thesis by simp
  qed
qed

lemma decimal_0: "decimal 0 = ''0''"
  by (simp add: decimal.simps digit_def)
lemma decimal_1: "decimal (Suc 0) = ''1''"
  by (simp add: decimal.simps digit_def)
lemma decimal_now: "decimal 1700000000000 = ''1700000000000''"
  by (simp add: decimal.simps digit_def)

lemma upt_0_2: "[0..<2] = [0, Suc 0]"
  by (simp add: upt_rec)

theorem startChain_local_nodes_and_broadcast_witness:
  "distinct [''node-0'', ''node-1''] \<and>
   set [''node-0'', ''node-1''] \<inter> fst ` set (nodes ciSupervisor) = {} \<and>
   (\<exists>s' w'. startChain ciSupervisor sampleWorld = (Resolved (), s', w') \<and>
      nodes s' = [(''node-0'', Node [] ''node-0''), (''node-1'', Node [] ''node-1'')] \<and>
      length (broadcast_calls (trace w')) = 1)"
  using startChain_local_nodes_and_broadcast
    [of "[''node-0'', ''node-1'']" sampleWorld ciSupervisor]
  by (simp add: ciSupervisor_def sampleWorld_def decimal_0 decimal_1 upt_0_2)


text \<open>
  C4. \<^verbatim>\<open>broadcastNodeCreationSignal\<close> hands exactly one message to the broadcast function:
  its signal is \<^verbatim>\<open>NODE_CREATE\<close>, and the config of its chain is the supervisor's chain
  config, stage by stage in order, each stage reduced to its \<^verbatim>\<open>services\<close> (a stage of the
  message has no \<^verbatim>\<open>location\<close> field).
\<close>

theorem broadcastNodeCreationSignal_message:
  "broadcast_calls (trace (snd (snd (broadcastNodeCreationSignal s w)))) =
     broadcast_calls (trace w) @
       [\<lparr>signal = NODE_CREATE,
         chain = \<lparr>chain_id = uid s @ ''-'' @ decimal (now w) @ ''-'' @
                               take 8 (uuids w (uuidCalls w)),
                   config = map (\<lambda>cfg. \<lparr>services = services cfg\<rparr>) (chainConfig s)\<rparr>\<rparr>]"
  by (simp add: broadcastNodeCreationSignal_result broadcast_calls_append split: option.split)

theorem broadcastNodeCreationSignal_message_witness:
  "broadcast_calls (trace (snd (snd (broadcastNodeCreationSignal ciSupervisor sampleWorld)))) =
     [\<lparr>signal = ''node_create'',
       chain = \<lparr>chain_id = ''ci-1700000000000-3f2a9c1e'',
                 config = [\<lparr>services = [''A'']\<rparr>, \<lparr>services = [''B'']\<rparr>,
                           \<lparr>services = [''C'']\<rparr>]\<rparr>\<rparr>]"
  using broadcastNodeCreationSignal_message [of ciSupervisor sampleWorld]
  by (simp add: ciSupervisor_def sampleWorld_def decimal_now NODE_CREATE_def)

lemma is_uuid_prefix: "is_uuid u \<Longrightarrow> length (take 8 u) = 8 \<and> list_all is_hex (take 8 u)"
  by (simp add: is_uuid_def)

text \<open>
  C5. The chain id that \<^verbatim>\<open>broadcastNodeCreationSignal\<close> allocates is the supervisor's uid, a
  hyphen, the decimal digits of the clock's milliseconds, a hyphen and eight hexadecimal
  digits, the first eight characters of the UUID drawn; for uid \<^verbatim>\<open>ci\<close> it is
  \<^verbatim>\<open>ci-\<close>, digits, \<^verbatim>\<open>-\<close> and eight hexadecimal digits. \<^verbatim>\<open>randomUUID()\<close> returns the text form of
  a UUID.
\<close>

theorem chainId_form:
  assumes "is_uuid (uuids w (uuidCalls w))"
  shows "\<exists>ms hex.
           map (\<lambda>m. chain_id (chain m))
             (broadcast_calls (trace (snd (snd (broadcastNodeCreationSignal s w))))) =
           map (\<lambda>m. chain_id (chain m)) (broadcast_calls (trace w)) @
             [uid s @ ''-'' @ ms @ ''-'' @ hex] \<and>
           ms = decimal (now w) \<and> ms \<noteq> [] \<and> list_all is_digit ms \<and>
           hex = take 8 (uuids w (uuidCalls w)) \<and> length hex = 8 \<and> list_all is_hex hex"
  using is_uuid_prefix [OF assms] decimal_digits [of "now w"]
  by (simp add: broadcastNodeCreationSignal_result broadcast_calls_append split: option.split)

lemma sample_uuid: "is_uuid ''3f2a9c1e-7b4d-4e8a-9c6f-0123456789ab''"
  by (simp add: is_uuid_def is_hex_def)

theorem chainId_form_witness:
  "is_uuid (uuids sampleWorld (uuidCalls sampleWorld)) \<and>
   map (\<lambda>m. chain_id (chain m))
     (broadcast_calls (trace (snd (snd (broadcastNodeCreationSignal ciSupervisor sampleWorld))))) =
   [''ci-1700000000000-3f2a9c1e'']"
  using chainId_form [of sampleWorld ciSupervisor] sample_uuid
  by (simp add: sampleWorld_def ciSupervisor_def decimal_now)

text \<open>
  C6, as amended. When the chain has a remote stage and the broadcast function raises,
  the failure is logged at error level and goes no further: \<^verbatim>\<open>startChain\<close> resolves, and
  no error reaches its caller. The local nodes created before the broadcast stay in the
  supervisor's map of nodes.
\<close>

theorem broadcast_failure_logged_not_raised:
  assumes "ids = map (nodeIds w) [nodeCount w..<nodeCount w +
                   length (filter (\<lambda>cfg. location cfg = Local) (chainConfig s))]"
    and "distinct ids"
    and "set ids \<inter> fst ` set (nodes s) = {}"
    and "\<exists>cfg\<in>set (chainConfig s). location cfg = Remote"
    and "\<And>m. broadcastFunction s m = Some (raised m)"
  shows "\<exists>s' w' m. startChain s w = (Resolved (), s', w') \<and>
           nodes s' = nodes s @ map (\<lambda>i. (i, Node [] i)) ids \<and>
           broadcast_calls (trace w') = broadcast_calls (trace w) @ [m] \<and>
           last (trace w') =
             Log ERROR (Message (''Failed to broadcast node creation signal: '' @
                                 error_text (raised m)))"
proof -
  from startChain_result [OF assms(1,2,3)] assms(4) obtain s1 w1 where
    st: "startChain s w = broadcastNodeCreationSignal s1 w1"
    and n: "nodes s1 = nodes s @ map (\<lambda>i. (i, Node [] i)) ids"
    and f: "broadcastFunction s1 = broadcastFunction s"
    and b: "broadcast_calls (trace w1) = broadcast_calls (trace w)"
    by auto
  show ?thesis
    using st n b f assms(5)
    by (simp add: broadcastNodeCreationSignal_result broadcast_calls_append)
qed


theorem broadcast_failure_logged_not_raised_witness:
  "distinct [''node-0'', ''node-1''] \<and>
   set [''node-0'', ''node-1''] \<inter> fst ` set (nodes failingSupervisor) = {} \<and>
   (\<exists>cfg\<in>set (chainConfig failingSupervisor). location cfg = Remote) \<and>
   (\<forall>m. broadcastFunction failingSupervisor m = Some (Error ''boom'')) \<and>
   (\<exists>s' w' m. startChain failingSupervisor sampleWorld = (Resolved (), s', w') \<and>
      nodes s' = [(''node-0'', Node [] ''node-0''), (''node-1'', Node [] ''node-1'')] \<and>
      broadcast_calls (trace w') = [m] \<and>
      last (trace w') =
        Log ERROR (Message ''Failed to broadcast node creation signal: Error: boom''))"
  using broadcast_failure_logged_not_raised
    [of "[''node-0'', ''node-1'']" sampleWorld failingSupervisor "\<lambda>m. Error ''boom''"]
  by (simp add: failingSupervisor_def ciSupervisor_def sampleWorld_def decimal_0 decimal_1 upt_0_2)

text \<open>
  C6 as stated fails: with a broadcast function that raises \<^verbatim>\<open>Error("boom")\<close>,
  \<^verbatim>\<open>startChain\<close> resolves; the failure appears in the log only.
\<close>

theorem broadcast_failure_not_reported_upstream:
  "fst (startChain failingSupervisor sampleWorld) = Resolved () \<and>
   nodes (fst (snd (startChain failingSupervisor sampleWorld))) =
     [(''node-0'', Node [] ''node-0''), (''node-1'', Node [] ''node-1'')] \<and>
   trace (snd (snd (startChain failingSupervisor sampleWorld))) =
     [Log INFO (Message ''Node node-0 created.''),
      Log INFO (Message ''Node node-1 created.''),
      Broadcast \<lparr>signal = ''node_create'',
                 chain = \<lparr>chain_id = ''ci-1700000000000-3f2a9c1e'',
                           config = [\<lparr>services = [''A'']\<rparr>, \<lparr>services = [''B'']\<rparr>,
                                     \<lparr>services = [''C'']\<rparr>]\<rparr>\<rparr>,
      Log ERROR (Message ''Failed to broadcast node creation signal: Error: boom'')]"
  by (simp add: startChain_def createNode_result broadcastNodeCreationSignal_result
      failingSupervisor_def ciSupervisor_def sampleWorld_def decimal_0 decimal_1 decimal_now
      NODE_CREATE_def)

text \<open>
  C9. \<^verbatim>\<open>NODE_DELETE\<close> for an id that is not in the map of nodes leaves the supervisor (its
  nodes and its monitoring) unchanged and logs one warning; \<^verbatim>\<open>NODE_PAUSE\<close> for a node whose
  status is \<^verbatim>\<open>PAUSED\<close> leaves the supervisor, and so the node, unchanged.
\<close>

theorem delete_unknown_and_pause_paused:
  "(Map_get (nodes s) i = None \<longrightarrow>
      handleRequest execute send
        \<lparr>p_signal = NODE_DELETE, p_params = ps, p_id = i, p_delay = ms, p_data = d\<rparr> s w =
        (Resolved None, s,
         w\<lparr>trace := trace w @ [Log WARN (Message (''Node '' @ i @ '' not found.''))]\<rparr>)) \<and>
   (Map_get (nodes s) i = Some n \<and> status n = PAUSED \<longrightarrow>
      handleRequest execute send
        \<lparr>p_signal = NODE_PAUSE, p_params = ps, p_id = i, p_delay = ms, p_data = d\<rparr> s w =
        (Resolved None, s,
         w\<lparr>trace := trace w @ [Log INFO (Message (''Node '' @ i @ '' paused.''))]\<rparr>))"
  by (auto simp: handleRequest_def signal_defs deleteNode_def pauseNode_def returning_def
      Map_has_get updateStatus_def legal_transition_def Map_set_same log_def emit_def)

theorem delete_unknown_and_pause_paused_witness:
  "Map_get (nodes pausedSupervisor) ''node-7'' = None \<and>
   handleRequest noExecute sendData
     \<lparr>p_signal = NODE_DELETE, p_params = None, p_id = ''node-7'', p_delay = 0, p_data = JNull\<rparr>
     pausedSupervisor sampleWorld =
     (Resolved None, pausedSupervisor,
      sampleWorld\<lparr>trace := [Log WARN (Message ''Node node-7 not found.'')]\<rparr>) \<and>
   Map_get (nodes pausedSupervisor) ''node-0'' = Some ((Node [] ''node-0'')\<lparr>status := PAUSED\<rparr>) \<and>
   status ((Node [] ''node-0'')\<lparr>status := PAUSED\<rparr>) = PAUSED \<and>
   handleRequest noExecute sendData
     \<lparr>p_signal = NODE_PAUSE, p_params = None, p_id = ''node-0'', p_delay = 0, p_data = JNull\<rparr>
     pausedSupervisor sampleWorld =
     (Resolved None, pausedSupervisor,
      sampleWorld\<lparr>trace := [Log INFO (Message ''Node node-0 paused.'')]\<rparr>)"
  using delete_unknown_and_pause_paused
    [where s = pausedSupervisor and i = "''node-7''" and execute = noExecute
       and send = sendData and ps = None
       and ms = 0 and d = JNull and w = sampleWorld]
    delete_unknown_and_pause_paused
    [where s = pausedSupervisor and i = "''node-0''" and execute = noExecute
       and send = sendData and ps = None
       and ms = 0 and d = JNull and w = sampleWorld
       and n = "(Node [] ''node-0'')\<lparr>status := PAUSED\<rparr>"]
  by (simp add: pausedSupervisor_def Map_get_def sampleWorld_def)







section \<open>Properties of the default callbacks\<close>

lemma setupStages_prefix:
  assumes "\<forall>c\<in>set pre. snd (setupStage P cid hr pa c) = None"
  shows "setupStages P cid hr pa (pre @ rest) =
           (concat (map (\<lambda>c. fst (setupStage P cid hr pa c)) pre) @
              fst (setupStages P cid hr pa rest),
            snd (setupStages P cid hr pa rest))"
  using assms
proof (induction pre)
  case Nil
  then show ?case by simp
next
  case (Cons c pre)
  then have "snd (setupStage P cid hr pa c) = None" by simp
  then obtain es where "setupStage P cid hr pa c = (es, None)"
    by (cases "setupStage P cid hr pa c") auto
  with Cons show ?case by (simp add: case_prod_beta)
qed

text \<open>
  C2, as amended. The broadcast-setup callback logs the message and then processes the
  stages in the order of the chain config. For one stage: with an empty list of services
  it logs a warning and issues no POST; otherwise only the first service entry is looked
  at, and the other entries are ignored without any warning; if the host resolver
  returns nothing or the empty string for the first entry's target, the stage logs a
  warning and issues no POST; if it returns a host that joins with the setup path to a
  URL, exactly one POST goes to that URL, with the chain id and the stage's config as
  body; and if host and path do not join to a URL, the error is caught and logged and no
  POST is issued. A stage that ends in one of these ways does not keep the stages after
  it from being processed: after stages for which the host resolver has returned, the
  remaining stages are processed as they would be alone.
\<close>

theorem broadcastSetupCallback_stages:
  "fst (broadcastSetupCallback P \<lparr>bsc_message = m, bsc_hostResolver = hr, bsc_path = pa\<rparr>) =
     Log INFO (BroadcastMessage m) #
     fst (setupStages P (chain_id (chain m)) hr pa (config (chain m))) \<and>
   ((\<forall>c\<in>set pre. snd (setupStage P cid hr pa c) = None) \<longrightarrow>
      fst (setupStages P cid hr pa (pre @ rest)) =
        concat (map (\<lambda>c. fst (setupStage P cid hr pa c)) pre) @
        fst (setupStages P cid hr pa rest)) \<and>
   (services cfg = [] \<longrightarrow>
      setupStage P cid hr pa cfg =
        ([Log WARN (Message ''Empty services array encountered in config'')], None)) \<and>
   (services cfg = sv # others \<and> hr (service_targetId sv) (service_meta sv) = Inr host \<and>
    falsy host \<longrightarrow>
      setupStage P cid hr pa cfg =
        ([Log WARN (Message (''No container address found for targetId: '' @
                             service_targetId sv))], None)) \<and>
   (services cfg = sv # others \<and> hr (service_targetId sv) (service_meta sv) = Inr (Some h) \<and>
    h \<noteq> [] \<and> newURL P pa (Some h) = Inr url \<longrightarrow>
      setupStage P cid hr pa cfg = ([Post url (SetupBody cid cfg)], None)) \<and>
   (services cfg = sv # others \<and> hr (service_targetId sv) (service_meta sv) = Inr (Some h) \<and>
    h \<noteq> [] \<and> newURL P pa (Some h) = Inl e \<longrightarrow>
      setupStage P cid hr pa cfg =
        ([Log ERROR (Message (''Unexpected error sending setup request to '' @ h @
                              '' for targetId '' @ service_targetId sv @ '': '' @ message e))],
         None))"
proof (intro conjI impI)
  show "fst (broadcastSetupCallback P \<lparr>bsc_message = m, bsc_hostResolver = hr, bsc_path = pa\<rparr>) =
     Log INFO (BroadcastMessage m) #
     fst (setupStages P (chain_id (chain m)) hr pa (config (chain m)))"
    by (simp add: broadcastSetupCallback_def Let_def split: prod.split option.split)
next
  assume "\<forall>c\<in>set pre. snd (setupStage P cid hr pa c) = None"
  then show "fst (setupStages P cid hr pa (pre @ rest)) =
        concat (map (\<lambda>c. fst (setupStage P cid hr pa c)) pre) @
        fst (setupStages P cid hr pa rest)"
    by (simp add: setupStages_prefix)
next
  assume "services cfg = []"
  then show "setupStage P cid hr pa cfg =
        ([Log WARN (Message ''Empty services array encountered in config'')], None)"
    by (simp add: setupStage_def)
next
  assume "services cfg = sv # others \<and> hr (service_targetId sv) (service_meta sv) = Inr host \<and>
    falsy host"
  then show "setupStage P cid hr pa cfg =
        ([Log WARN (Message (''No container address found for targetId: '' @
                             service_targetId sv))], None)"
    by (cases host) (simp_all add: setupStage_def Let_def)
next
  assume "services cfg = sv # others \<and> hr (service_targetId sv) (service_meta sv) = Inr (Some h) \<and>
    h \<noteq> [] \<and> newURL P pa (Some h) = Inr url"
  then show "setupStage P cid hr pa cfg = ([Post url (SetupBody cid cfg)], None)"
    by (simp add: setupStage_def Let_def)
next
  assume "services cfg = sv # others \<and> hr (service_targetId sv) (service_meta sv) = Inr (Some h) \<and>
    h \<noteq> [] \<and> newURL P pa (Some h) = Inl e"
  then show "setupStage P cid hr pa cfg =
        ([Log ERROR (Message (''Unexpected error sending setup request to '' @ h @
                              '' for targetId '' @ service_targetId sv @ '': '' @ message e))],
         None)"
    by (simp add: setupStage_def Let_def)
qed

lemma originURL_setup_peer2: "originURL ''/setup'' (Some ''http://peer2'') = Inr ''http://peer2/setup''"
  by (simp add: originURL_def absolute_def)

lemma originURL_setup_peer3: "originURL ''/setup'' (Some ''http://peer3'') = Inr ''http://peer3/setup''"
  by (simp add: originURL_def absolute_def)

lemma originURL_setup_peer4: "originURL ''/setup'' (Some ''peer4'') = Inl (TypeError ''Invalid URL'')"
  by (simp add: originURL_def absolute_def)

lemma originURL_run_peer2: "originURL ''/run'' (Some ''http://peer2'') = Inr ''http://peer2/run''"
  by (simp add: originURL_def absolute_def)

lemma originURL_notify: "originURL ''/notify'' None = Inl (TypeError ''Invalid URL'')"
  by (simp add: originURL_def absolute_def)

theorem broadcastSetupCallback_stages_witness:
  "services \<lparr>services = [] :: service list\<rparr> = [] \<and>
   services \<lparr>services = [ServiceId ''Z'']\<rparr> = [ServiceId ''Z''] \<and>
   peerResolver (service_targetId (ServiceId ''Z'')) (service_meta (ServiceId ''Z'')) = Inr None \<and>
   falsy None \<and>
   peerResolver (service_targetId (ServiceId ''E'')) (service_meta (ServiceId ''E'')) =
     Inr (Some []) \<and>
   falsy (Some []) \<and>
   services \<lparr>services = [ServiceConfig ''C'' (Some (JStr ''eu'')), ServiceId ''B'']\<rparr> =
     [ServiceConfig ''C'' (Some (JStr ''eu'')), ServiceId ''B''] \<and>
   peerResolver ''C'' (Some (JStr ''eu'')) = Inr (Some ''http://peer3'') \<and>
   newURL originPlatform ''/setup'' (Some ''http://peer3'') = Inr ''http://peer3/setup'' \<and>
   peerResolver ''D'' None = Inr (Some ''peer4'') \<and>
   newURL originPlatform ''/setup'' (Some ''peer4'') = Inl (TypeError ''Invalid URL'') \<and>
   map (\<lambda>c. snd (setupStage originPlatform ''ci-1700000000000-3f2a9c1e'' peerResolver
                    ''/setup'' c))
     (config (chain setupMessage)) = [None, None, None, None, None, None] \<and>
   fst (broadcastSetupCallback originPlatform
     \<lparr>bsc_message = setupMessage, bsc_hostResolver = peerResolver, bsc_path = ''/setup''\<rparr>) =
   [Log INFO (BroadcastMessage setupMessage),
    Log WARN (Message ''Empty services array encountered in config''),
    Post ''http://peer2/setup''
      (SetupBody ''ci-1700000000000-3f2a9c1e'' \<lparr>services = [ServiceId ''B'']\<rparr>),
    Log WARN (Message ''No container address found for targetId: Z''),
    Log ERROR (Message
      ''Unexpected error sending setup request to peer4 for targetId D: Invalid URL''),
    Log WARN (Message ''No container address found for targetId: E''),
    Post ''http://peer3/setup''
      (SetupBody ''ci-1700000000000-3f2a9c1e''
         \<lparr>services = [ServiceConfig ''C'' (Some (JStr ''eu'')), ServiceId ''B'']\<rparr>)]"
proof -
  let ?cid = "''ci-1700000000000-3f2a9c1e''"
  let ?stage = "setupStage originPlatform ?cid peerResolver ''/setup''"
  note inst = broadcastSetupCallback_stages
    [where P = originPlatform and m = setupMessage and hr = peerResolver and pa = "''/setup''"
       and cid = ?cid]
  have u: "newURL originPlatform = originURL"
    by (simp add: originPlatform_def)
  have r: "peerResolver ''B'' None = Inr (Some ''http://peer2'')"
      "peerResolver ''C'' (Some (JStr ''eu'')) = Inr (Some ''http://peer3'')"
      "peerResolver ''D'' None = Inr (Some ''peer4'')"
      "peerResolver ''E'' None = Inr (Some [])"
      "peerResolver ''Z'' None = Inr None"
    by (simp_all add: peerResolver_def)
  have s0: "?stage \<lparr>services = []\<rparr> =
              ([Log WARN (Message ''Empty services array encountered in config'')], None)"
    using inst [where cfg = "\<lparr>services = []\<rparr>"] by simp
  have s1: "?stage \<lparr>services = [ServiceId ''B'']\<rparr> =
              ([Post ''http://peer2/setup'' (SetupBody ?cid \<lparr>services = [ServiceId ''B'']\<rparr>)],
               None)"
    using inst [where cfg = "\<lparr>services = [ServiceId ''B'']\<rparr>" and sv = "ServiceId ''B''"
        and others = "[]" and h = "''http://peer2''" and url = "''http://peer2/setup''"]
    by (simp add: r u originURL_setup_peer2)
  have s2: "?stage \<lparr>services = [ServiceId ''Z'']\<rparr> =
              ([Log WARN (Message ''No container address found for targetId: Z'')], None)"
    using inst [where cfg = "\<lparr>services = [ServiceId ''Z'']\<rparr>" and sv = "ServiceId ''Z''"
        and others = "[]" and host = None]
    by (simp add: r)
  have s3: "?stage \<lparr>services = [ServiceId ''D'']\<rparr> =
              ([Log ERROR (Message
                 ''Unexpected error sending setup request to peer4 for targetId D: Invalid URL'')],
               None)"
    using inst [where cfg = "\<lparr>services = [ServiceId ''D'']\<rparr>" and sv = "ServiceId ''D''"
        and others = "[]" and h = "''peer4''" and e = "TypeError ''Invalid URL''"]
    by (simp add: r u originURL_setup_peer4)
  have s4: "?stage \<lparr>services = [ServiceId ''E'']\<rparr> =
              ([Log WARN (Message ''No container address found for targetId: E'')], None)"
    using inst [where cfg = "\<lparr>services = [ServiceId ''E'']\<rparr>" and sv = "ServiceId ''E''"
        and others = "[]" and host = "Some []"]
    by (simp add: r)
  have s5: "?stage \<lparr>services = [ServiceConfig ''C'' (Some (JStr ''eu'')), ServiceId ''B'']\<rparr> =
              ([Post ''http://peer3/setup''
                 (SetupBody ?cid
                    \<lparr>services = [ServiceConfig ''C'' (Some (JStr ''eu'')), ServiceId ''B'']\<rparr>)],
               None)"
    using inst [where cfg = "\<lparr>services = [ServiceConfig ''C'' (Some (JStr ''eu'')), ServiceId ''B'']\<rparr>"
        and sv = "ServiceConfig ''C'' (Some (JStr ''eu''))"
        and others = "[ServiceId ''B'']" and h = "''http://peer3''" and url = "''http://peer3/setup''"]
    by (simp add: r u originURL_setup_peer3)
  have cfgs: "config (chain setupMessage) =
      [\<lparr>services = []\<rparr>, \<lparr>services = [ServiceId ''B'']\<rparr>, \<lparr>services = [ServiceId ''Z'']\<rparr>,
       \<lparr>services = [ServiceId ''D'']\<rparr>, \<lparr>services = [ServiceId ''E'']\<rparr>,
       \<lparr>services = [ServiceConfig ''C'' (Some (JStr ''eu'')), ServiceId ''B'']\<rparr>]"
      "chain_id (chain setupMessage) = ?cid"
    by (simp_all add: setupMessage_def)
  have none: "\<forall>c\<in>set (config (chain setupMessage)). snd (?stage c) = None"
    by (simp add: cfgs s0 s1 s2 s3 s4 s5)
  have all: "fst (setupStages originPlatform ?cid peerResolver ''/setup''
                    (config (chain setupMessage) @ [])) =
             concat (map (\<lambda>c. fst (?stage c)) (config (chain setupMessage))) @
             fst (setupStages originPlatform ?cid peerResolver ''/setup'' [])"
    using inst [where pre = "config (chain setupMessage)" and rest = "[]"
        and cfg = "\<lparr>services = []\<rparr>"] none
    by blast
  have head: "fst (broadcastSetupCallback originPlatform
     \<lparr>bsc_message = setupMessage, bsc_hostResolver = peerResolver, bsc_path = ''/setup''\<rparr>) =
     Log INFO (BroadcastMessage setupMessage) #
     fst (setupStages originPlatform ?cid peerResolver ''/setup'' (config (chain setupMessage)))"
    using inst [where cfg = "\<lparr>services = []\<rparr>"] by (simp add: cfgs)
  show ?thesis
    using all
    by (simp add: head cfgs s0 s1 s2 s3 s4 s5 r u originURL_setup_peer3 originURL_setup_peer4)
qed

text \<open>
  C2 as stated fails: for a stage with the two services \<^verbatim>\<open>B\<close> and \<^verbatim>\<open>C\<close> the callback
  posts to the host of \<^verbatim>\<open>B\<close> and logs no warning.
\<close>

theorem additional_services_no_warning:
  "broadcastSetupCallback originPlatform
     \<lparr>bsc_message = fanoutMessage, bsc_hostResolver = peerResolver, bsc_path = ''/setup''\<rparr> =
   ([Log INFO (BroadcastMessage fanoutMessage),
     Post ''http://peer2/setup''
       (SetupBody ''ci-1700000000000-3f2a9c1e'' \<lparr>services = [ServiceId ''B'', ServiceId ''C'']\<rparr>)],
    Resolved ()) \<and>
   filter is_warning
     (fst (broadcastSetupCallback originPlatform
        \<lparr>bsc_message = fanoutMessage, bsc_hostResolver = peerResolver, bsc_path = ''/setup''\<rparr>)) = []"
  by (simp add: broadcastSetupCallback_def fanoutMessage_def setupStage_def peerResolver_def
      originPlatform_def originURL_setup_peer2 is_warning_def Let_def)

text \<open>
  The host resolver is called outside the \<^verbatim>\<open>try\<close> block: when it throws for the first
  stage, the loop ends there, the second stage is not processed and the callback rejects.
\<close>

lemma throwing_resolver_ends_loop:
  "broadcastSetupCallback originPlatform
     \<lparr>bsc_message = abortedMessage, bsc_hostResolver = peerResolver, bsc_path = ''/setup''\<rparr> =
   ([Log INFO (BroadcastMessage abortedMessage)], Rejected (Error ''registry unavailable''))"
  by (simp add: broadcastSetupCallback_def abortedMessage_def setupStage_def peerResolver_def Let_def)


lemma is_Post_simps:
  "is_Post (Post u b) = True" "is_Post (Log l t) = False"
  "is_Post (Broadcast bm) = False" "is_Post (Callback cp) = False"
  by (simp_all add: is_Post_def)

lemma remoteServiceCallback_missing_chainId:
  "falsy (chainId cb) \<Longrightarrow>
   remoteServiceCallback P \<lparr>rsc_cbPayload = cb, rsc_hostResolver = hr, rsc_path = pa\<rparr> =
     ([Log INFO (ServiceCallbackPayload cb pa),
       Log ERROR (Message (''Error sending data to next connector: '' @ message MissingChainId))],
      Rejected MissingChainId)"
  by (simp add: remoteServiceCallback_def Let_def)

lemma remoteServiceCallback_no_connector:
  "\<not> falsy (chainId cb) \<Longrightarrow> hr (targetId cb) (meta cb) = Inr host \<Longrightarrow> falsy host \<Longrightarrow>
   remoteServiceCallback P \<lparr>rsc_cbPayload = cb, rsc_hostResolver = hr, rsc_path = pa\<rparr> =
     ([Log INFO (ServiceCallbackPayload cb pa),
       Log ERROR (Message (''Error sending data to next connector: '' @
                           message (NoNextConnector (targetId cb))))],
      Rejected (NoNextConnector (targetId cb)))"
  by (simp add: remoteServiceCallback_def Let_def)

lemma remoteServiceCallback_post:
  "\<not> falsy (chainId cb) \<Longrightarrow> hr (targetId cb) (meta cb) = Inr (Some h) \<Longrightarrow> h \<noteq> [] \<Longrightarrow>
   newURL P pa (Some h) = Inr url \<Longrightarrow>
   filter is_Post
     (fst (remoteServiceCallback P \<lparr>rsc_cbPayload = cb, rsc_hostResolver = hr, rsc_path = pa\<rparr>)) =
     [Post url (RunBody cb)] \<and>
   snd (remoteServiceCallback P \<lparr>rsc_cbPayload = cb, rsc_hostResolver = hr, rsc_path = pa\<rparr>) =
     (case post P url (RunBody cb) of None \<Rightarrow> Resolved () | Some e \<Rightarrow> Rejected e)"
  by (cases "post P url (RunBody cb)")
     (simp_all add: remoteServiceCallback_def Let_def is_Post_simps)

lemma sendData_callback_error:
  "status n = COMPLETED \<Longrightarrow> node_output n = Some out \<Longrightarrow> nextTarget n = Some target \<Longrightarrow>
   callback \<lparr>chainId = node_chainId n, targetId = target, meta = node_meta n, data = out\<rparr> =
     (es, Some e) \<Longrightarrow>
   sendData callback n =
     (Callback \<lparr>chainId = node_chainId n, targetId = target, meta = node_meta n, data = out\<rparr> # es,
      n, Some (Thrown e))"
  by (simp add: sendData_def Let_def)

text \<open>
  C3, as amended. The remote-service callback, for a payload whose chain id is
  \<^verbatim>\<open>undefined\<close> or the empty string, raises the \<^verbatim>\<open>MissingChainId\<close> error and issues no POST;
  otherwise, if the host resolver returns nothing or the empty string for the payload's
  target, it raises the \<^verbatim>\<open>NoNextConnector\<close> error and issues no POST; otherwise, if the
  host it returns joins with the run path to a URL, it issues exactly one POST of the
  payload to that URL, and settles as the POST does. An error the callback raises is the
  error of the \<^verbatim>\<open>sendData\<close> of the node that hands the payload over, and the node is left as
  it was.
\<close>

theorem remoteServiceCallback_cases:
  "(falsy (chainId cb) \<longrightarrow>
      snd (remoteServiceCallback P \<lparr>rsc_cbPayload = cb, rsc_hostResolver = hr, rsc_path = pa\<rparr>) =
        Rejected MissingChainId \<and>
      filter is_Post
        (fst (remoteServiceCallback P \<lparr>rsc_cbPayload = cb, rsc_hostResolver = hr, rsc_path = pa\<rparr>)) = []) \<and>
   (\<not> falsy (chainId cb) \<and> hr (targetId cb) (meta cb) = Inr host \<and> falsy host \<longrightarrow>
      snd (remoteServiceCallback P \<lparr>rsc_cbPayload = cb, rsc_hostResolver = hr, rsc_path = pa\<rparr>) =
        Rejected (NoNextConnector (targetId cb)) \<and>
      filter is_Post
        (fst (remoteServiceCallback P \<lparr>rsc_cbPayload = cb, rsc_hostResolver = hr, rsc_path = pa\<rparr>)) = []) \<and>
   (\<not> falsy (chainId cb) \<and> hr (targetId cb) (meta cb) = Inr (Some h) \<and> h \<noteq> [] \<and>
    newURL P pa (Some h) = Inr url \<longrightarrow>
      filter is_Post
        (fst (remoteServiceCallback P \<lparr>rsc_cbPayload = cb, rsc_hostResolver = hr, rsc_path = pa\<rparr>)) =
        [Post url (RunBody cb)] \<and>
      snd (remoteServiceCallback P \<lparr>rsc_cbPayload = cb, rsc_hostResolver = hr, rsc_path = pa\<rparr>) =
        (case post P url (RunBody cb) of None \<Rightarrow> Resolved () | Some e \<Rightarrow> Rejected e)) \<and>
   (status n = COMPLETED \<and> node_output n = Some out \<and> nextTarget n = Some target \<and>
    snd (remoteServiceCallback P
           \<lparr>rsc_cbPayload = \<lparr>chainId = node_chainId n, targetId = target, meta = node_meta n,
                              data = out\<rparr>,
            rsc_hostResolver = hr, rsc_path = pa\<rparr>) = Rejected err \<longrightarrow>
      sendData (remoteServiceOutput P hr pa) n =
        (Callback \<lparr>chainId = node_chainId n, targetId = target, meta = node_meta n, data = out\<rparr> #
           fst (remoteServiceCallback P
                  \<lparr>rsc_cbPayload = \<lparr>chainId = node_chainId n, targetId = target,
                                     meta = node_meta n, data = out\<rparr>,
                   rsc_hostResolver = hr, rsc_path = pa\<rparr>),
         n, Some (Thrown err)))"
proof (intro conjI impI)
  assume "falsy (chainId cb)"
  then show "snd (remoteServiceCallback P \<lparr>rsc_cbPayload = cb, rsc_hostResolver = hr, rsc_path = pa\<rparr>) =
        Rejected MissingChainId"
    and "filter is_Post
        (fst (remoteServiceCallback P \<lparr>rsc_cbPayload = cb, rsc_hostResolver = hr, rsc_path = pa\<rparr>)) = []"
    by (simp_all add: remoteServiceCallback_missing_chainId is_Post_simps)
next
  assume "\<not> falsy (chainId cb) \<and> hr (targetId cb) (meta cb) = Inr host \<and> falsy host"
  then show "snd (remoteServiceCallback P \<lparr>rsc_cbPayload = cb, rsc_hostResolver = hr, rsc_path = pa\<rparr>) =
        Rejected (NoNextConnector (targetId cb))"
    and "filter is_Post
        (fst (remoteServiceCallback P \<lparr>rsc_cbPayload = cb, rsc_hostResolver = hr, rsc_path = pa\<rparr>)) = []"
    by (simp_all add: remoteServiceCallback_no_connector is_Post_simps)
next
  assume a: "\<not> falsy (chainId cb) \<and> hr (targetId cb) (meta cb) = Inr (Some h) \<and> h \<noteq> [] \<and>
    newURL P pa (Some h) = Inr url"
  then show "filter is_Post
        (fst (remoteServiceCallback P \<lparr>rsc_cbPayload = cb, rsc_hostResolver = hr, rsc_path = pa\<rparr>)) =
        [Post url (RunBody cb)]"
    and "snd (remoteServiceCallback P \<lparr>rsc_cbPayload = cb, rsc_hostResolver = hr, rsc_path = pa\<rparr>) =
        (case post P url (RunBody cb) of None \<Rightarrow> Resolved () | Some e \<Rightarrow> Rejected e)"
    using remoteServiceCallback_post [of cb hr h P pa url] by simp_all
next
  assume "status n = COMPLETED \<and> node_output n = Some out \<and> nextTarget n = Some target \<and>
    snd (remoteServiceCallback P
           \<lparr>rsc_cbPayload = \<lparr>chainId = node_chainId n, targetId = target, meta = node_meta n,
                              data = out\<rparr>,
            rsc_hostResolver = hr, rsc_path = pa\<rparr>) = Rejected err"
  then show "sendData (remoteServiceOutput P hr pa) n =
        (Callback \<lparr>chainId = node_chainId n, targetId = target, meta = node_meta n, data = out\<rparr> #
           fst (remoteServiceCallback P
                  \<lparr>rsc_cbPayload = \<lparr>chainId = node_chainId n, targetId = target,
                                     meta = node_meta n, data = out\<rparr>,
                   rsc_hostResolver = hr, rsc_path = pa\<rparr>),
         n, Some (Thrown err))"
    by (intro sendData_callback_error)
       (simp_all add: remoteServiceOutput_def rejection_def case_prod_beta)
qed


theorem remoteServiceCallback_cases_witness:
  "falsy (chainId ((handoffPayload ''B'')\<lparr>chainId := None\<rparr>)) \<and>
   remoteServiceCallback originPlatform
     \<lparr>rsc_cbPayload = (handoffPayload ''B'')\<lparr>chainId := None\<rparr>, rsc_hostResolver = peerResolver,
      rsc_path = ''/run''\<rparr> =
     ([Log INFO (ServiceCallbackPayload ((handoffPayload ''B'')\<lparr>chainId := None\<rparr>) ''/run''),
       Log ERROR (Message ''Error sending data to next connector: payload.chainId is undefined'')],
      Rejected (Error ''payload.chainId is undefined'')) \<and>
   \<not> falsy (chainId (handoffPayload ''Z'')) \<and>
   peerResolver (targetId (handoffPayload ''Z'')) (meta (handoffPayload ''Z'')) = Inr None \<and>
   falsy None \<and>
   snd (remoteServiceCallback originPlatform
     \<lparr>rsc_cbPayload = handoffPayload ''Z'', rsc_hostResolver = peerResolver, rsc_path = ''/run''\<rparr>) =
     Rejected (Error ''Next connector URI not found for the following target service: Z'') \<and>
   filter is_Post (fst (remoteServiceCallback originPlatform
     \<lparr>rsc_cbPayload = handoffPayload ''Z'', rsc_hostResolver = peerResolver, rsc_path = ''/run''\<rparr>)) =
     [] \<and>
   \<not> falsy (chainId (handoffPayload ''B'')) \<and>
   peerResolver (targetId (handoffPayload ''B'')) (meta (handoffPayload ''B'')) =
     Inr (Some ''http://peer2'') \<and>
   newURL originPlatform ''/run'' (Some ''http://peer2'') = Inr ''http://peer2/run'' \<and>
   filter is_Post (fst (remoteServiceCallback originPlatform
     \<lparr>rsc_cbPayload = handoffPayload ''B'', rsc_hostResolver = peerResolver, rsc_path = ''/run''\<rparr>)) =
     [Post ''http://peer2/run'' (RunBody (handoffPayload ''B''))] \<and>
   snd (remoteServiceCallback originPlatform
     \<lparr>rsc_cbPayload = handoffPayload ''B'', rsc_hostResolver = peerResolver, rsc_path = ''/run''\<rparr>) =
     Resolved () \<and>
   status completedNode = COMPLETED \<and> node_output completedNode = Some (JNum 42) \<and>
   nextTarget completedNode = Some ''Z'' \<and>
   sendData (remoteServiceOutput originPlatform peerResolver ''/run'') completedNode =
     ([Callback (handoffPayload ''Z''),
       Log INFO (ServiceCallbackPayload (handoffPayload ''Z'') ''/run''),
       Log ERROR (Message ''Error sending data to next connector: Next connector URI not found for the following target service: Z'')],
      completedNode,
      Some (Thrown (Error ''Next connector URI not found for the following target service: Z'')))"
proof -
  note inst = remoteServiceCallback_cases
    [where P = originPlatform and hr = peerResolver and pa = "''/run''"]
  have u: "newURL originPlatform = originURL" "post originPlatform = (\<lambda>url body. None)"
    by (simp_all add: originPlatform_def)
  have r: "peerResolver ''B'' None = Inr (Some ''http://peer2'')"
      "peerResolver ''Z'' None = Inr None"
    by (simp_all add: peerResolver_def)
  have p: "chainId (handoffPayload t) = Some ''ci-1700000000000-3f2a9c1e''"
      "targetId (handoffPayload t) = t" "meta (handoffPayload t) = None" for t
    by (simp_all add: handoffPayload_def)
  have c: "status completedNode = COMPLETED" "node_output completedNode = Some (JNum 42)"
      "nextTarget completedNode = Some ''Z''"
      "\<lparr>chainId = node_chainId completedNode, targetId = ''Z'', meta = node_meta completedNode,
         data = JNum 42\<rparr> = handoffPayload ''Z''"
    by (simp_all add: completedNode_def Node_def handoffPayload_def)
  have a1: "remoteServiceCallback originPlatform
     \<lparr>rsc_cbPayload = (handoffPayload ''B'')\<lparr>chainId := None\<rparr>, rsc_hostResolver = peerResolver,
      rsc_path = ''/run''\<rparr> =
     ([Log INFO (ServiceCallbackPayload ((handoffPayload ''B'')\<lparr>chainId := None\<rparr>) ''/run''),
       Log ERROR (Message ''Error sending data to next connector: payload.chainId is undefined'')],
      Rejected (Error ''payload.chainId is undefined''))"
    using inst [where cb = "(handoffPayload ''B'')\<lparr>chainId := None\<rparr>"]
    by (simp add: remoteServiceCallback_def MissingChainId_def Let_def)
  have a2: "snd (remoteServiceCallback originPlatform
     \<lparr>rsc_cbPayload = handoffPayload ''Z'', rsc_hostResolver = peerResolver, rsc_path = ''/run''\<rparr>) =
     Rejected (Error ''Next connector URI not found for the following target service: Z'') \<and>
     filter is_Post (fst (remoteServiceCallback originPlatform
     \<lparr>rsc_cbPayload = handoffPayload ''Z'', rsc_hostResolver = peerResolver, rsc_path = ''/run''\<rparr>)) =
     []"
    using inst [where cb = "handoffPayload ''Z''" and host = None]
    by (simp add: p r NoNextConnector_def)
  have a3: "filter is_Post (fst (remoteServiceCallback originPlatform
     \<lparr>rsc_cbPayload = handoffPayload ''B'', rsc_hostResolver = peerResolver, rsc_path = ''/run''\<rparr>)) =
     [Post ''http://peer2/run'' (RunBody (handoffPayload ''B''))] \<and>
     snd (remoteServiceCallback originPlatform
     \<lparr>rsc_cbPayload = handoffPayload ''B'', rsc_hostResolver = peerResolver, rsc_path = ''/run''\<rparr>) =
     Resolved ()"
    using inst [where cb = "handoffPayload ''B''" and h = "''http://peer2''"
        and url = "''http://peer2/run''"]
    by (simp add: p r u originURL_run_peer2)
  have ev: "fst (remoteServiceCallback originPlatform
     \<lparr>rsc_cbPayload = handoffPayload ''Z'', rsc_hostResolver = peerResolver, rsc_path = ''/run''\<rparr>) =
     [Log INFO (ServiceCallbackPayload (handoffPayload ''Z'') ''/run''),
      Log ERROR (Message ''Error sending data to next connector: Next connector URI not found for the following target service: Z'')]"
    by (simp add: remoteServiceCallback_def p r NoNextConnector_def Let_def)
  have a4: "sendData (remoteServiceOutput originPlatform peerResolver ''/run'') completedNode =
     ([Callback (handoffPayload ''Z''),
       Log INFO (ServiceCallbackPayload (handoffPayload ''Z'') ''/run''),
       Log ERROR (Message ''Error sending data to next connector: Next connector URI not found for the following target service: Z'')],
      completedNode,
      Some (Thrown (Error ''Next connector URI not found for the following target service: Z'')))"
    using inst [where n = completedNode and out = "JNum 42" and target = "''Z''"
        and err = "Error ''Next connector URI not found for the following target service: Z''"]
      a2
    by (simp add: c ev)
  show ?thesis
    using a1 a2 a3 a4 by (simp add: p r u c originURL_run_peer2)
qed

text \<open>
  C3 as stated fails: the chain id of the payload is the empty string, not \<^verbatim>\<open>undefined\<close>,
  and the resolver returns a URL for the target; the callback raises the
  \<^verbatim>\<open>MissingChainId\<close> error and issues no POST.
\<close>

theorem empty_chainId_is_rejected:
  "chainId emptyChainIdPayload = Some [] \<and>
   peerResolver (targetId emptyChainIdPayload) (meta emptyChainIdPayload) =
     Inr (Some ''http://peer2'') \<and>
   newURL originPlatform ''/run'' (Some ''http://peer2'') = Inr ''http://peer2/run'' \<and>
   remoteServiceCallback originPlatform
     \<lparr>rsc_cbPayload = emptyChainIdPayload, rsc_hostResolver = peerResolver, rsc_path = ''/run''\<rparr> =
     ([Log INFO (ServiceCallbackPayload emptyChainIdPayload ''/run''),
       Log ERROR (Message ''Error sending data to next connector: payload.chainId is undefined'')],
      Rejected (Error ''payload.chainId is undefined''))"
  by (simp add: remoteServiceCallback_def emptyChainIdPayload_def peerResolver_def
      originPlatform_def originURL_run_peer2 MissingChainId_def Let_def)

text \<open>
  C7. For a chain without registered monitoring host the default resolver logs the miss
  and returns \<^verbatim>\<open>undefined\<close>; the broadcast-reporting callback then builds
  \<^verbatim>\<open>new URL(path, undefined)\<close>: it rejects with the constructor's error where the path alone
  is no URL, and posts the report to the path otherwise. The report is not dropped
  silently.
\<close>

theorem unregistered_chain_report_not_dropped:
  assumes "getRemoteMonitoringHost agent (report_chainId m) = None"
  shows "defaultMonitoringResolver agent (report_chainId m) =
           ([Log ERROR (Message ''monitoring not found'')], Resolved None) \<and>
         broadcastReportingCallback P
           \<lparr>brc_message = m, brc_path = pa,
            brc_monitoringResolver = defaultMonitoringResolver agent\<rparr> =
           (case newURL P pa None of
              Inl e \<Rightarrow> ([Log ERROR (Message ''monitoring not found'')], Rejected e)
            | Inr url \<Rightarrow>
                ([Log ERROR (Message ''monitoring not found''), Post url (NotifyBody m)],
                 case post P url (NotifyBody m) of None \<Rightarrow> Resolved () | Some e \<Rightarrow> Rejected e))"
  using assms
  by (simp add: defaultMonitoringResolver_def broadcastReportingCallback_def Let_def
      split: sum.split)

text \<open>
  C7 at the notify path \<^verbatim>\<open>/notify\<close>: the callback rejects with \<^verbatim>\<open>TypeError: Invalid URL\<close>.
\<close>

theorem unregistered_chain_report_raises:
  "getRemoteMonitoringHost [] (report_chainId sampleReport) = None \<and>
   broadcastReportingCallback originPlatform
     \<lparr>brc_message = sampleReport, brc_path = ''/notify'',
      brc_monitoringResolver = defaultMonitoringResolver []\<rparr> =
     ([Log ERROR (Message ''monitoring not found'')], Rejected (TypeError ''Invalid URL''))"
  using unregistered_chain_report_not_dropped
    [where agent = "[]" and m = sampleReport and P = originPlatform and pa = "''/notify''"]
  by (simp add: getRemoteMonitoringHost_def originPlatform_def originURL_notify)

end
